theory Spec2Isabelle
  imports Complex_Main
begin

section \<open>Meteor Mission: the simulation core\<close>

text \<open>
  A shallow embedding of the game's simulation core: the configuration constants, the
  observable game state (\<open>GameStateManager\<close>), the entities (\<open>Entity\<close>, \<open>Lander\<close>,
  \<open>LandingPad\<close>, \<open>Meteor\<close>, \<open>Astronaut\<close>, \<open>Bullet\<close>), the \<open>CollisionSystem\<close> and the
  frame loop of \<open>Game\<close>.

  JavaScript numbers are modelled as \<^typ>\<open>real\<close> where the source computes with fractions
  (positions, velocities, radii, fuel) and as \<^typ>\<open>int\<close> where it only counts (score, lives,
  rescued astronauts, level); IEEE rounding, infinities and NaN are not modelled.
  Objects are records, and a method that mutates \<open>this\<close> returns the updated record.
  Rendering (meshes, materials, the scene graph, particle explosions), audio and the DOM
  are sinks of the core and are left out; of a mesh only the position, and for the
  astronaut the uniform scale, take part in the simulation.
\<close>

subsection \<open>Config\<close>

definition GAME_WIDTH :: real where "GAME_WIDTH = 40"
definition GAME_HEIGHT :: real where "GAME_HEIGHT = 60"

definition METEOR_COUNT :: int where "METEOR_COUNT = 25"
definition LANDING_PADS :: nat where "LANDING_PADS = 3"
definition INITIAL_LIVES :: int where "INITIAL_LIVES = 3"
definition MAX_BULLETS :: nat where "MAX_BULLETS = 3"

definition FUEL_MAX :: real where "FUEL_MAX = 100"
definition FUEL_CONSUMPTION_RATE :: real where "FUEL_CONSUMPTION_RATE = 15"
definition FUEL_REFILL_ON_LAND :: real where "FUEL_REFILL_ON_LAND = 50"

definition GRAVITY :: real where "GRAVITY = - 0.015"
definition THRUST :: real where "THRUST = 0.04"
definition HORIZONTAL_SPEED :: real where "HORIZONTAL_SPEED = 0.3"
definition DESCENT_SPEED :: real where "DESCENT_SPEED = - 0.08"
definition ASCENT_SPEED :: real where "ASCENT_SPEED = 0.1"
definition BULLET_SPEED :: real where "BULLET_SPEED = 0.8"
definition MAX_DESCENT_SPEED :: real where "MAX_DESCENT_SPEED = - 0.3"

definition SCORE_LANDING :: int where "SCORE_LANDING = 100"
definition SCORE_RESCUE :: int where "SCORE_RESCUE = 200"
definition SCORE_METEOR :: int where "SCORE_METEOR = 50"
definition SCORE_FLAGSHIP :: int where "SCORE_FLAGSHIP = 500"

definition ASTRONAUTS_PER_LEVEL :: int where "ASTRONAUTS_PER_LEVEL = 5"
definition METEORS_PER_LEVEL :: int where "METEORS_PER_LEVEL = 3"

definition FLAGSHIP_CHANCE :: real where "FLAGSHIP_CHANCE = 0.05"
definition FLAGSHIP_FLASH_DURATION :: real where "FLAGSHIP_FLASH_DURATION = 3"

datatype PHASE = TITLE | DESCENT | LANDED | ASCENT | GAME_OVER

subsection \<open>GameStateManager\<close>

text \<open>
  The manager's \<open>state\<close> object is the first seven fields. \<open>notified\<close> is the trace of the
  calls of \<open>notify\<close>, oldest first, each recorded by its event name: the listeners
  themselves are the callers' code, and every call of \<open>notify\<close> also reaches the listeners
  of \<open>'change'\<close>.
\<close>

record GameStateManager =
  phase :: PHASE
  score :: int
  lives :: int
  astronautsRescued :: int
  fuel :: real
  hasAstronaut :: bool
  level :: int
  notified :: "string list"

definition notify :: "string \<Rightarrow> GameStateManager \<Rightarrow> GameStateManager" where
  "notify event s = s\<lparr>notified := notified s @ [event]\<rparr>"

text \<open>\<open>reset()\<close> replaces the state object and notifies \<open>'reset'\<close>; listeners are kept.\<close>

definition GameStateManager_reset :: "GameStateManager \<Rightarrow> GameStateManager" where
  "GameStateManager_reset s =
     notify ''reset''
       (s\<lparr>phase := TITLE, score := 0, lives := INITIAL_LIVES, astronautsRescued := 0,
          fuel := FUEL_MAX, hasAstronaut := False, level := 1\<rparr>)"

text \<open>
  \<open>set(key, value)\<close>, one function per key of the state object: the field is written and
  the key notified only when the value differs from the old one.
\<close>

definition set_phase :: "PHASE \<Rightarrow> GameStateManager \<Rightarrow> GameStateManager" where
  "set_phase v s = (if phase s \<noteq> v then notify ''phase'' (s\<lparr>phase := v\<rparr>) else s)"

definition set_score :: "int \<Rightarrow> GameStateManager \<Rightarrow> GameStateManager" where
  "set_score v s = (if score s \<noteq> v then notify ''score'' (s\<lparr>score := v\<rparr>) else s)"

definition set_lives :: "int \<Rightarrow> GameStateManager \<Rightarrow> GameStateManager" where
  "set_lives v s = (if lives s \<noteq> v then notify ''lives'' (s\<lparr>lives := v\<rparr>) else s)"

definition set_astronautsRescued :: "int \<Rightarrow> GameStateManager \<Rightarrow> GameStateManager" where
  "set_astronautsRescued v s =
     (if astronautsRescued s \<noteq> v
      then notify ''astronautsRescued'' (s\<lparr>astronautsRescued := v\<rparr>) else s)"

definition set_fuel :: "real \<Rightarrow> GameStateManager \<Rightarrow> GameStateManager" where
  "set_fuel v s = (if fuel s \<noteq> v then notify ''fuel'' (s\<lparr>fuel := v\<rparr>) else s)"

definition set_hasAstronaut :: "bool \<Rightarrow> GameStateManager \<Rightarrow> GameStateManager" where
  "set_hasAstronaut v s =
     (if hasAstronaut s \<noteq> v then notify ''hasAstronaut'' (s\<lparr>hasAstronaut := v\<rparr>) else s)"

definition set_level :: "int \<Rightarrow> GameStateManager \<Rightarrow> GameStateManager" where
  "set_level v s = (if level s \<noteq> v then notify ''level'' (s\<lparr>level := v\<rparr>) else s)"

definition addScore :: "int \<Rightarrow> GameStateManager \<Rightarrow> GameStateManager" where
  "addScore points s = set_score (score s + points) s"

text \<open>\<open>consumeFuel\<close> returns whether fuel was available, and the state.\<close>

definition consumeFuel :: "real \<Rightarrow> GameStateManager \<Rightarrow> bool \<times> GameStateManager" where
  "consumeFuel amount s =
     (if fuel s \<le> 0 then (False, s)
      else (True, set_fuel (max 0 (fuel s - amount)) s))"

definition refillFuel :: "real \<Rightarrow> GameStateManager \<Rightarrow> GameStateManager" where
  "refillFuel amount s = set_fuel (min FUEL_MAX (fuel s + amount)) s"

text \<open>\<open>loseLife\<close> returns whether the game continues, and the state.\<close>

definition loseLife :: "GameStateManager \<Rightarrow> bool \<times> GameStateManager" where
  "loseLife s = (let newLives = lives s - 1 in (newLives > 0, set_lives newLives s))"

text \<open>
  The remainder operator \<open>%\<close> of JavaScript on integer values: the result has the sign of
  the dividend.
\<close>

definition js_rem :: "int \<Rightarrow> int \<Rightarrow> int" where
  "js_rem a b = sgn a * (\<bar>a\<bar> mod \<bar>b\<bar>)"

definition rescueAstronaut :: "GameStateManager \<Rightarrow> GameStateManager" where
  "rescueAstronaut s =
     (let rescued = astronautsRescued s + 1;
          s1 = set_astronautsRescued rescued s;
          s2 = addScore SCORE_RESCUE s1
      in if js_rem rescued ASTRONAUTS_PER_LEVEL = 0
         then notify ''levelUp'' (set_level (level s2 + 1) s2)
         else s2)"

text \<open>A sequence of fuel operations, as any caller may issue them.\<close>

datatype fuel_op = Consume real | Refill real

fun amount_of :: "fuel_op \<Rightarrow> real" where
  "amount_of (Consume a) = a"
| "amount_of (Refill a) = a"

fun fuel_step :: "fuel_op \<Rightarrow> GameStateManager \<Rightarrow> GameStateManager" where
  "fuel_step (Consume a) s = snd (consumeFuel a s)"
| "fuel_step (Refill a) s = refillFuel a s"

fun fuel_run :: "fuel_op list \<Rightarrow> GameStateManager \<Rightarrow> GameStateManager" where
  "fuel_run [] s = s"
| "fuel_run (p # ps) s = fuel_run ps (fuel_step p s)"

text \<open>The state after \<open>reset()\<close> on a manager without history.\<close>

definition initial_state :: GameStateManager where
  "initial_state =
     \<lparr>phase = TITLE, score = 0, lives = INITIAL_LIVES, astronautsRescued = 0,
      fuel = FUEL_MAX, hasAstronaut = False, level = 1, notified = [''reset'']\<rparr>"

subsection \<open>Entity\<close>

text \<open>
  The base class: the position of the mesh, the velocity, the \<open>active\<close> flag and the
  collision radius. Every subclass builds its mesh in its constructor and never drops it,
  so the branches of the source for a missing mesh are not reachable from any entity of
  the game, and an entity here always has a position.
\<close>

record Entity =
  pos_x :: real
  pos_y :: real
  pos_z :: real
  vel_x :: real
  vel_y :: real
  vel_z :: real
  active :: bool
  radius :: real

text \<open>\<open>Vector3.distanceTo\<close>: the euclidean distance of the two positions.\<close>

definition distanceTo :: "'a Entity_scheme \<Rightarrow> 'b Entity_scheme \<Rightarrow> real" where
  "distanceTo a b =
     sqrt ((pos_x a - pos_x b)\<^sup>2 + (pos_y a - pos_y b)\<^sup>2 + (pos_z a - pos_z b)\<^sup>2)"

definition collidesWith :: "'a Entity_scheme \<Rightarrow> 'b Entity_scheme \<Rightarrow> bool" where
  "collidesWith this other =
     (if \<not> active this \<or> \<not> active other then False
      else distanceTo this other < radius this + radius other)"

subsection \<open>Lander\<close>

text \<open>\<open>rot_z\<close> is the tilt \<open>mesh.rotation.z\<close>.\<close>

record Lander = Entity +
  rot_z :: real
  thrusterVisible :: bool

definition setThrusterVisible :: "bool \<Rightarrow> Lander \<Rightarrow> Lander" where
  "setThrusterVisible visible l = l\<lparr>thrusterVisible := visible\<rparr>"

definition Lander_reset :: "Lander \<Rightarrow> Lander" where
  "Lander_reset l =
     setThrusterVisible False
       (l\<lparr>pos_x := 0, pos_y := GAME_HEIGHT / 2 - 6, pos_z := 0,
          vel_x := 0, vel_y := DESCENT_SPEED, vel_z := 0, rot_z := 0\<rparr>)"

text \<open>The constructor followed by \<open>reset()\<close>, as \<open>Game.createLander\<close> does.\<close>

definition Lander_new :: Lander where
  "Lander_new =
     Lander_reset
       \<lparr>pos_x = 0, pos_y = 0, pos_z = 0, vel_x = 0, vel_y = 0, vel_z = 0,
        active = True, radius = 1, rot_z = 0, thrusterVisible = False\<rparr>"

definition applyThrust :: "Lander \<Rightarrow> Lander" where
  "applyThrust l = setThrusterVisible True (l\<lparr>vel_y := vel_y l + THRUST\<rparr>)"

definition moveHorizontal :: "real \<Rightarrow> real \<Rightarrow> Lander \<Rightarrow> Lander" where
  "moveHorizontal direction speedMultiplier l =
     l\<lparr>pos_x := pos_x l + direction * HORIZONTAL_SPEED * speedMultiplier,
       rot_z := - direction * 0.2\<rparr>"

definition applyGravity :: "Lander \<Rightarrow> Lander" where
  "applyGravity l = l\<lparr>vel_y := max (vel_y l + GRAVITY) MAX_DESCENT_SPEED\<rparr>"

definition easeRotation :: "Lander \<Rightarrow> Lander" where
  "easeRotation l = l\<lparr>rot_z := rot_z l * 0.9\<rparr>"

definition clampPosition :: "Lander \<Rightarrow> Lander" where
  "clampPosition l =
     (let halfWidth = GAME_WIDTH / 2 - 1
      in l\<lparr>pos_x := max (- halfWidth) (min halfWidth (pos_x l))\<rparr>)"

definition Lander_update :: "real \<Rightarrow> Lander \<Rightarrow> Lander" where
  "Lander_update deltaTime l =
     (if \<not> active l then l
      else clampPosition (l\<lparr>pos_x := pos_x l + vel_x l, pos_y := pos_y l + vel_y l\<rparr>))"

definition startAscent :: "Lander \<Rightarrow> Lander" where
  "startAscent l = l\<lparr>vel_y := ASCENT_SPEED\<rparr>"

definition boostAscent :: "Lander \<Rightarrow> Lander" where
  "boostAscent l = l\<lparr>vel_y := ASCENT_SPEED * 1.5\<rparr>"

definition isAtGroundLevel :: "Lander \<Rightarrow> bool" where
  "isAtGroundLevel l = (pos_y l < - GAME_HEIGHT / 2 + 3)"

definition reachedMothership :: "Lander \<Rightarrow> bool" where
  "reachedMothership l = (pos_y l > GAME_HEIGHT / 2 - 6)"

definition isInDockingRange :: "Lander \<Rightarrow> bool" where
  "isInDockingRange l = (\<bar>pos_x l\<bar> < 2)"

definition isOutOfBounds :: "Lander \<Rightarrow> bool" where
  "isOutOfBounds l =
     (let halfWidth = GAME_WIDTH / 2 - 1
      in pos_x l < - halfWidth \<or> pos_x l > halfWidth)"

subsection \<open>LandingPad and Mothership\<close>

record LandingPad = Entity +
  padX :: real
  padIndex :: nat
  width :: real

definition LandingPad_new :: "real \<Rightarrow> nat \<Rightarrow> LandingPad" where
  "LandingPad_new x index =
     \<lparr>pos_x = x, pos_y = - GAME_HEIGHT / 2 + 2, pos_z = 0, vel_x = 0, vel_y = 0, vel_z = 0,
      active = True, radius = 1, padX = x, padIndex = index, width = 4\<rparr>"

definition isPositionOverPad :: "LandingPad \<Rightarrow> real \<Rightarrow> bool" where
  "isPositionOverPad pad x = (\<bar>x - padX pad\<bar> < width pad / 2 - 0.5)"

text \<open>
  The mothership's \<open>update\<close> only animates it (a bob driven by the wall clock); no query
  reads its position, so it is a constant of the model.
\<close>

record Mothership = Entity +
  baseY :: real

definition Mothership_new :: Mothership where
  "Mothership_new =
     \<lparr>pos_x = 0, pos_y = GAME_HEIGHT / 2 - 3, pos_z = 0, vel_x = 0, vel_y = 0, vel_z = 0,
      active = True, radius = 1, baseY = GAME_HEIGHT / 2 - 3\<rparr>"

subsection \<open>Meteor\<close>

text \<open>
  \<open>drawable\<close> says which mesh the meteor owns: the rock built by \<open>createMesh\<close> or the
  flagship group that \<open>transformToFlagship\<close> puts in its place. \<open>mlevel\<close> is the field
  \<open>level\<close> of the source.
\<close>

datatype Drawable = RockMesh | FlagshipGroup

record Meteor = Entity +
  mlevel :: int
  isFlagship :: bool
  flashTimer :: real
  willBecomeFlagship :: bool
  points :: int
  drawable :: Drawable

text \<open>
  The values of \<open>Math.random()\<close> that a constructor call draws and the simulation uses, each
  in \<open>[0, 1)\<close>: for the eligibility, the scale, the position and the velocity. The draws for
  the shape and the spin of the rock are cosmetic.
\<close>

record MeteorDraws =
  d_flagship :: real
  d_scale :: real
  d_px :: real
  d_py :: real
  d_pz :: real
  d_vx :: real
  d_vy :: real

definition draws_ok :: "MeteorDraws \<Rightarrow> bool" where
  "draws_ok d =
     (0 \<le> d_flagship d \<and> d_flagship d < 1 \<and> 0 \<le> d_scale d \<and> d_scale d < 1 \<and>
      0 \<le> d_px d \<and> d_px d < 1 \<and> 0 \<le> d_py d \<and> d_py d < 1 \<and>
      0 \<le> d_pz d \<and> d_pz d < 1 \<and> 0 \<le> d_vx d \<and> d_vx d < 1 \<and>
      0 \<le> d_vy d \<and> d_vy d < 1)"

definition Meteor_createMesh :: "MeteorDraws \<Rightarrow> Meteor \<Rightarrow> Meteor" where
  "Meteor_createMesh d m =
     (let scale = 0.5 + d_scale d * 1
      in m\<lparr>drawable := RockMesh, radius := scale\<rparr>)"

definition randomize :: "MeteorDraws \<Rightarrow> Meteor \<Rightarrow> Meteor" where
  "randomize d m =
     (let topSafeZone = 15;
          bottomMargin = 8;
          yRange = GAME_HEIGHT - topSafeZone - bottomMargin;
          speedMultiplier = 1 + real_of_int (mlevel m) * 0.1
      in m\<lparr>pos_x := (d_px d - 0.5) * (GAME_WIDTH - 4),
           pos_y := - GAME_HEIGHT / 2 + bottomMargin + d_py d * yRange,
           pos_z := (d_pz d - 0.5) * 4,
           vel_x := (d_vx d - 0.5) * 0.1 * speedMultiplier,
           vel_y := (d_vy d - 0.5) * 0.05,
           vel_z := 0\<rparr>)"

definition Meteor_new :: "int \<Rightarrow> MeteorDraws \<Rightarrow> Meteor" where
  "Meteor_new lvl d =
     randomize d
       (Meteor_createMesh d
         \<lparr>pos_x = 0, pos_y = 0, pos_z = 0, vel_x = 0, vel_y = 0, vel_z = 0,
          active = True, radius = 1, mlevel = lvl, isFlagship = False, flashTimer = 0,
          willBecomeFlagship = (d_flagship d < FLAGSHIP_CHANCE), points = SCORE_METEOR,
          drawable = RockMesh\<rparr>)"

text \<open>The new group takes over the position of the old mesh, so the position stays.\<close>

definition transformToFlagship :: "Meteor \<Rightarrow> Meteor" where
  "transformToFlagship m =
     m\<lparr>drawable := FlagshipGroup, isFlagship := True, vel_x := vel_x m * 2,
       radius := 1.2, points := SCORE_FLAGSHIP\<rparr>"

text \<open>
  \<open>scene\<close> tells whether a scene was passed (the parameter defaults to \<open>null\<close>). The spin
  and the flash of the material are cosmetic.
\<close>

definition Meteor_update :: "real \<Rightarrow> bool \<Rightarrow> Meteor \<Rightarrow> Meteor" where
  "Meteor_update deltaTime scene m =
     (if \<not> active m then m
      else
        let m1 = m\<lparr>pos_x := pos_x m + vel_x m, pos_y := pos_y m + vel_y m\<rparr>;
            halfWidth = GAME_WIDTH / 2 - 2;
            m2 = (if pos_x m1 < - halfWidth \<or> pos_x m1 > halfWidth
                  then m1\<lparr>vel_x := vel_x m1 * (- 1)\<rparr> else m1);
            topBound = GAME_HEIGHT / 2 - 15;
            bottomBound = - GAME_HEIGHT / 2 + 5;
            m3 = (if pos_y m2 < bottomBound then m2\<lparr>pos_y := topBound - 3\<rparr>
                  else if pos_y m2 > topBound then m2\<lparr>pos_y := bottomBound + 3\<rparr>
                  else m2)
        in if willBecomeFlagship m3 \<and> \<not> isFlagship m3 \<and> scene
           then
             let m4 = m3\<lparr>flashTimer := flashTimer m3 + 0.05\<rparr>
             in if flashTimer m4 > FLAGSHIP_FLASH_DURATION then transformToFlagship m4
                else m4
           else m3)"

subsection \<open>Astronaut\<close>

datatype AstronautState = RUNNING | BOARDING | ABOARD

text \<open>
  \<open>scale\<close> is the uniform scale of the mesh (\<open>multiplyScalar\<close> shrinks the three components
  alike, and \<open>update\<close> reads \<open>scale.x\<close>); \<open>homePadX\<close> is the field \<open>padX\<close> of the source.
\<close>

record Astronaut = Entity +
  homePadX :: real
  state :: AstronautState
  speed :: real
  scale :: real

definition Astronaut_new :: "real \<Rightarrow> Astronaut" where
  "Astronaut_new x =
     \<lparr>pos_x = x - 3, pos_y = - GAME_HEIGHT / 2 + 2.5, pos_z = 0,
      vel_x = 0, vel_y = 0, vel_z = 0, active = True, radius = 0.3,
      homePadX = x, state = RUNNING, speed = 0.05, scale = 1\<rparr>"

text \<open>
  \<open>update(deltaTime, landerPosition)\<close> reads only \<open>landerPosition.x\<close>, passed here as
  \<open>landerX\<close>. It returns whether the astronaut came aboard in this call, and the astronaut.
  \<open>Math.sign\<close> is \<^const>\<open>sgn\<close>; the walking animation is cosmetic.
\<close>

definition Astronaut_update :: "real \<Rightarrow> real \<Rightarrow> Astronaut \<Rightarrow> bool \<times> Astronaut" where
  "Astronaut_update deltaTime landerX a =
     (if \<not> active a \<or> state a = ABOARD then (False, a)
      else if state a = RUNNING then
        let direction = sgn (landerX - pos_x a);
            a1 = a\<lparr>pos_x := pos_x a + direction * speed a\<rparr>
        in if \<bar>pos_x a1 - landerX\<bar> < 0.5 then (False, a1\<lparr>state := BOARDING\<rparr>)
           else (False, a1)
      else if state a = BOARDING then
        let a1 = a\<lparr>pos_y := pos_y a + 0.05, scale := scale a * 0.95\<rparr>
        in if scale a1 < 0.1 then (True, a1\<lparr>state := ABOARD, active := False\<rparr>)
           else (False, a1)
      else (False, a))"

definition isBoarding :: "Astronaut \<Rightarrow> bool" where
  "isBoarding a = (state a = BOARDING)"

definition isAboard :: "Astronaut \<Rightarrow> bool" where
  "isAboard a = (state a = ABOARD)"

text \<open>
  A sequence of calls of \<open>update\<close> on one astronaut, one call for each lander position of
  the list: the values returned, in order, and the astronaut at the end.
\<close>

fun Astronaut_run :: "real \<Rightarrow> real list \<Rightarrow> Astronaut \<Rightarrow> bool list \<times> Astronaut" where
  "Astronaut_run deltaTime [] a = ([], a)"
| "Astronaut_run deltaTime (x # xs) a =
     (let (r, a1) = Astronaut_update deltaTime x a;
          (rs, a2) = Astronaut_run deltaTime xs a1
      in (r # rs, a2))"

text \<open>The position of a state on the path Approaching, Boarding, Aboard.\<close>

fun rank :: "AstronautState \<Rightarrow> nat" where
  "rank RUNNING = 0"
| "rank BOARDING = 1"
| "rank ABOARD = 2"

subsection \<open>Bullet\<close>

record Bullet = Entity +
  bulletSpeed :: real

text \<open>\<open>bulletSpeed\<close> is the field \<open>speed\<close> of the source; the start position is a vector.\<close>

definition Bullet_new :: "real \<times> real \<times> real \<Rightarrow> Bullet" where
  "Bullet_new startPosition =
     (case startPosition of (x, y, z) \<Rightarrow>
        \<lparr>pos_x = x, pos_y = y + 1.5, pos_z = z, vel_x = 0, vel_y = 0, vel_z = 0,
         active = True, radius = 0.2, bulletSpeed = BULLET_SPEED\<rparr>)"

text \<open>\<open>update\<close> returns whether the bullet is still on screen, and the bullet.\<close>

definition Bullet_update :: "real \<Rightarrow> Bullet \<Rightarrow> bool \<times> Bullet" where
  "Bullet_update deltaTime b =
     (if \<not> active b then (False, b)
      else
        let b1 = b\<lparr>pos_y := pos_y b + bulletSpeed b\<rparr>
        in if pos_y b1 > GAME_HEIGHT / 2 then (False, b1\<lparr>active := False\<rparr>)
           else (True, b1))"

subsection \<open>CollisionSystem\<close>

text \<open>
  \<open>triggerCollision(type, entityA, entityB)\<close> hands the two entities to the callbacks
  registered for the type. The callbacks are the callers' code; a query of the model returns,
  beside its result, the calls of \<open>triggerCollision\<close> it made, in order.
\<close>

datatype Collision =
    lander_meteor Lander Meteor
  | bullet_meteor Bullet Meteor
  | lander_pad Lander LandingPad
  | lander_ground Lander
  | lander_mothership Lander Mothership
  | lander_boundary Lander

text \<open>The loop of \<open>checkLanderMeteorCollision\<close> over the meteors.\<close>

fun landerMeteorLoop :: "Lander \<Rightarrow> Meteor list \<Rightarrow> Meteor option \<times> Collision list" where
  "landerMeteorLoop l [] = (None, [])"
| "landerMeteorLoop l (meteor # rest) =
     (if \<not> active meteor then landerMeteorLoop l rest
      else if collidesWith l meteor then (Some meteor, [lander_meteor l meteor])
      else landerMeteorLoop l rest)"

definition checkLanderMeteorCollision ::
    "Lander \<Rightarrow> Meteor list \<Rightarrow> Meteor option \<times> Collision list" where
  "checkLanderMeteorCollision l ms =
     (if \<not> active l then (None, []) else landerMeteorLoop l ms)"

text \<open>
  The two nested loops of \<open>checkBulletMeteorCollisions\<close>: the pairs pushed to \<open>collisions\<close>,
  in order. Each push is followed by one call of \<open>triggerCollision\<close> for the same pair.
\<close>

fun bulletMeteorInner :: "Bullet \<Rightarrow> Meteor list \<Rightarrow> (Bullet \<times> Meteor) list" where
  "bulletMeteorInner b [] = []"
| "bulletMeteorInner b (meteor # rest) =
     (if \<not> active meteor then bulletMeteorInner b rest
      else if collidesWith b meteor then (b, meteor) # bulletMeteorInner b rest
      else bulletMeteorInner b rest)"

fun bulletMeteorOuter :: "Bullet list \<Rightarrow> Meteor list \<Rightarrow> (Bullet \<times> Meteor) list" where
  "bulletMeteorOuter [] ms = []"
| "bulletMeteorOuter (bullet # rest) ms =
     (if \<not> active bullet then bulletMeteorOuter rest ms
      else bulletMeteorInner bullet ms @ bulletMeteorOuter rest ms)"

definition checkBulletMeteorCollisions ::
    "Bullet list \<Rightarrow> Meteor list \<Rightarrow> (Bullet \<times> Meteor) list \<times> Collision list" where
  "checkBulletMeteorCollisions bs ms =
     (let collisions = bulletMeteorOuter bs ms
      in (collisions, map (\<lambda>(b, m). bullet_meteor b m) collisions))"

text \<open>The first pad of the list that the horizontal position \<open>x\<close> is over.\<close>

fun firstPadUnder :: "real \<Rightarrow> LandingPad list \<Rightarrow> LandingPad option" where
  "firstPadUnder x [] = None"
| "firstPadUnder x (pad # rest) =
     (if isPositionOverPad pad x then Some pad else firstPadUnder x rest)"

definition checkLandingPadCollision ::
    "Lander \<Rightarrow> LandingPad list \<Rightarrow> LandingPad option \<times> Collision list" where
  "checkLandingPadCollision l pads =
     (if \<not> isAtGroundLevel l then (None, [])
      else case firstPadUnder (pos_x l) pads of
             Some pad \<Rightarrow> (Some pad, [lander_pad l pad])
           | None \<Rightarrow> (None, []))"

definition checkGroundCollision :: "Lander \<Rightarrow> LandingPad list \<Rightarrow> bool \<times> Collision list" where
  "checkGroundCollision l pads =
     (if \<not> isAtGroundLevel l then (False, [])
      else case firstPadUnder (pos_x l) pads of
             Some pad \<Rightarrow> (False, [])
           | None \<Rightarrow> (True, [lander_ground l]))"

definition checkDockingCollision :: "Lander \<Rightarrow> Mothership \<Rightarrow> bool \<times> Collision list" where
  "checkDockingCollision l ship =
     (if reachedMothership l \<and> isInDockingRange l then (True, [lander_mothership l ship])
      else (False, []))"

definition checkBoundaryCollision :: "Lander \<Rightarrow> bool \<times> Collision list" where
  "checkBoundaryCollision l =
     (if isOutOfBounds l then (True, [lander_boundary l]) else (False, []))"

subsection \<open>Game\<close>

text \<open>
  The input system as the game reads it: \<open>isPressed(action)\<close>.
\<close>

datatype Action = left | right | up | space

record InputSystem =
  enabled :: bool
  keys :: "Action \<Rightarrow> bool"

definition isPressed :: "InputSystem \<Rightarrow> Action \<Rightarrow> bool" where
  "isPressed inp action = (enabled inp \<and> keys inp action)"

text \<open>
  The orchestrator after \<open>startGame\<close>, when the lander exists. \<open>gameState\<close> is the singleton
  manager. \<open>timeouts\<close> holds the delays, in milliseconds, of the callbacks that \<open>loseLife\<close>
  has scheduled with \<open>setTimeout\<close>, oldest first. The game registers no collision callback,
  so it uses only the results of the queries.
\<close>

record Game =
  gameState :: GameStateManager
  lander :: Lander
  mothership :: Mothership
  meteors :: "Meteor list"
  landingPads :: "LandingPad list"
  bullets :: "Bullet list"
  astronaut :: "Astronaut option"
  timeouts :: "nat list"

text \<open>
  \<open>createMeteors\<close> replaces the batch; \<open>D i\<close> are the random draws of the \<open>i\<close>-th constructor
  call.
\<close>

definition createMeteors :: "(nat \<Rightarrow> MeteorDraws) \<Rightarrow> Game \<Rightarrow> Game" where
  "createMeteors D g =
     (let count = METEOR_COUNT + level (gameState g) * METEORS_PER_LEVEL
      in g\<lparr>meteors := map (\<lambda>i. Meteor_new (level (gameState g)) (D i)) [0..<nat count]\<rparr>)"

definition createLandingPads :: "LandingPad list" where
  "createLandingPads =
     (let padSpacing = GAME_WIDTH / (real LANDING_PADS + 1)
      in map (\<lambda>i. LandingPad_new (- GAME_WIDTH / 2 + padSpacing * (real i + 1)) i)
           [0..<LANDING_PADS])"

definition createAstronaut :: "LandingPad \<Rightarrow> Game \<Rightarrow> Game" where
  "createAstronaut pad g = g\<lparr>astronaut := Some (Astronaut_new (padX pad))\<rparr>"

text \<open>
  \<open>createBullet\<close> ignores the request when the pool is full; \<open>handleSpacePress\<close> is the
  listener of the space key, called between frames.
\<close>

definition createBullet :: "Game \<Rightarrow> Game" where
  "createBullet g =
     (if length (bullets g) \<ge> MAX_BULLETS then g
      else g\<lparr>bullets :=
               bullets g @ [Bullet_new (pos_x (lander g), pos_y (lander g), pos_z (lander g))]\<rparr>)"

definition handleSpacePress :: "bool \<Rightarrow> Game \<Rightarrow> Game" where
  "handleSpacePress pressed g =
     (if pressed \<and> phase (gameState g) = ASCENT then createBullet g else g)"

text \<open>
  The listeners of \<open>setupStateListeners\<close>: \<open>'change'\<close> refreshes the display, \<open>'levelUp'\<close>
  calls \<open>createMeteors\<close>. \<open>Game_rescueAstronaut\<close> is \<open>gameState.rescueAstronaut()\<close> as the
  game runs it, with the listeners called for the notifications of that call; \<open>'levelUp'\<close>
  is notified last, so its listener sees the state the call ends in.
\<close>

definition onNotified :: "(nat \<Rightarrow> MeteorDraws) \<Rightarrow> string \<Rightarrow> Game \<Rightarrow> Game" where
  "onNotified D event g = (if event = ''levelUp'' then createMeteors D g else g)"

definition Game_rescueAstronaut :: "(nat \<Rightarrow> MeteorDraws) \<Rightarrow> Game \<Rightarrow> Game" where
  "Game_rescueAstronaut D g =
     (let s = rescueAstronaut (gameState g);
          fired = drop (length (notified (gameState g))) (notified s)
      in fold (onNotified D) fired (g\<lparr>gameState := s\<rparr>))"

definition gameOver :: "Game \<Rightarrow> Game" where
  "gameOver g = g\<lparr>gameState := set_phase GAME_OVER (gameState g)\<rparr>"

definition Game_loseLife :: "Game \<Rightarrow> Game" where
  "Game_loseLife g =
     (let (hasLives, s) = loseLife (gameState g);
          g1 = g\<lparr>gameState := s\<rparr>
      in if \<not> hasLives then gameOver g1
         else g1\<lparr>timeouts := timeouts g1 @ [1000]\<rparr>)"

text \<open>
  The callback that \<open>loseLife\<close> schedules, run by the timer about a second later, between
  frames: the oldest pending entry of \<open>timeouts\<close> is taken off and the descent starts again.
\<close>

definition resetAfterLifeLoss :: "Game \<Rightarrow> Game" where
  "resetAfterLifeLoss g =
     g\<lparr>gameState :=
         refillFuel FUEL_MAX (set_hasAstronaut False (set_phase DESCENT (gameState g))),
       lander := Lander_reset (lander g),
       astronaut := None,
       timeouts := tl (timeouts g)\<rparr>"

definition createLander :: "Game \<Rightarrow> Game" where
  "createLander g = g\<lparr>lander := Lander_new\<rparr>"

text \<open>
  \<open>startGame\<close>: the state is reset and the phase set, the meteors and the lander are
  created anew, bullets and astronaut are cleared. Before the first call the source has no
  lander yet; the call replaces whatever the field holds.
\<close>

definition startGame :: "(nat \<Rightarrow> MeteorDraws) \<Rightarrow> Game \<Rightarrow> Game" where
  "startGame D g =
     (let g1 = g\<lparr>gameState := set_phase DESCENT (GameStateManager_reset (gameState g))\<rparr>;
          g2 = createLander (createMeteors D g1)
      in g2\<lparr>bullets := [], astronaut := None\<rparr>)"

definition updateDescentPhase :: "InputSystem \<Rightarrow> real \<Rightarrow> Game \<Rightarrow> Game" where
  "updateDescentPhase inp deltaTime g =
     (let l1 = applyGravity (lander g);
          l2 = (if isPressed inp left then moveHorizontal (- 1) 1 l1
                else if isPressed inp right then moveHorizontal 1 1 l1
                else easeRotation l1)
      in if isPressed inp up \<and> fuel (gameState g) > 0
         then g\<lparr>lander := setThrusterVisible True (applyThrust l2),
                gameState := snd (consumeFuel (FUEL_CONSUMPTION_RATE * deltaTime) (gameState g))\<rparr>
         else g\<lparr>lander := setThrusterVisible False l2\<rparr>)"

definition updateAscentPhase :: "InputSystem \<Rightarrow> real \<Rightarrow> Game \<Rightarrow> Game" where
  "updateAscentPhase inp deltaTime g =
     (let l1 = (lander g)\<lparr>vel_y := ASCENT_SPEED\<rparr>;
          l2 = (if isPressed inp left then moveHorizontal (- 1) 0.7 l1
                else if isPressed inp right then moveHorizontal 1 0.7 l1
                else easeRotation l1)
      in if isPressed inp space
         then g\<lparr>lander := setThrusterVisible True (boostAscent l2)\<rparr>
         else if isPressed inp up \<and> fuel (gameState g) > 0
         then g\<lparr>lander := setThrusterVisible True (l2\<lparr>vel_y := ASCENT_SPEED * 1.3\<rparr>),
                gameState :=
                  snd (consumeFuel (FUEL_CONSUMPTION_RATE * deltaTime * 0.5) (gameState g))\<rparr>
         else g\<lparr>lander := setThrusterVisible True l2\<rparr>)"

definition updateLander :: "InputSystem \<Rightarrow> real \<Rightarrow> Game \<Rightarrow> Game" where
  "updateLander inp deltaTime g =
     (if \<not> active (lander g) then g
      else
        let g1 = (if phase (gameState g) = DESCENT then updateDescentPhase inp deltaTime g
                  else if phase (gameState g) = ASCENT then updateAscentPhase inp deltaTime g
                  else g)
        in g1\<lparr>lander := Lander_update deltaTime (lander g1)\<rparr>)"

definition updateMeteors :: "real \<Rightarrow> Game \<Rightarrow> Game" where
  "updateMeteors deltaTime g = g\<lparr>meteors := map (Meteor_update deltaTime True) (meteors g)\<rparr>"

definition updateAstronaut :: "real \<Rightarrow> Game \<Rightarrow> Game" where
  "updateAstronaut deltaTime g =
     (case astronaut g of
        None \<Rightarrow> g
      | Some a \<Rightarrow>
          if phase (gameState g) \<noteq> LANDED then g
          else
            let (aboard, a1) = Astronaut_update deltaTime (pos_x (lander g)) a
            in if aboard
               then g\<lparr>astronaut := None,
                      gameState := set_phase ASCENT (set_hasAstronaut True (gameState g)),
                      lander := startAscent (lander g)\<rparr>
               else g\<lparr>astronaut := Some a1\<rparr>)"

text \<open>
  \<open>updateBullets\<close> updates every bullet once and splices out those whose \<open>update\<close> returns
  false; the others keep their order.
\<close>

definition updateBullets :: "real \<Rightarrow> Game \<Rightarrow> Game" where
  "updateBullets deltaTime g =
     g\<lparr>bullets := map snd (filter fst (map (Bullet_update deltaTime) (bullets g)))\<rparr>"

text \<open>
  The body of the \<open>forEach\<close> over the bullet hits: the score of the meteor, and both
  entities spliced out of their lists where \<open>indexOf\<close> still finds them.
\<close>

definition bulletHit :: "Bullet \<times> Meteor \<Rightarrow> Game \<Rightarrow> Game" where
  "bulletHit hit g =
     (case hit of (bullet, meteor) \<Rightarrow>
        g\<lparr>gameState := addScore (points meteor) (gameState g),
          bullets := remove1 bullet (bullets g),
          meteors := remove1 meteor (meteors g)\<rparr>)"

definition land :: "LandingPad \<Rightarrow> Game \<Rightarrow> Game" where
  "land pad g =
     createAstronaut pad
       (g\<lparr>gameState :=
            addScore SCORE_LANDING
              (refillFuel FUEL_REFILL_ON_LAND (set_phase LANDED (gameState g))),
          lander := (lander g)\<lparr>pos_y := - GAME_HEIGHT / 2 + 3.5, pos_z := 0,
                               vel_x := 0, vel_y := 0, vel_z := 0\<rparr>\<rparr>)"

definition dock :: "(nat \<Rightarrow> MeteorDraws) \<Rightarrow> Game \<Rightarrow> Game" where
  "dock D g =
     (let g1 = (if hasAstronaut (gameState g)
                then (let g2 = Game_rescueAstronaut D g
                      in g2\<lparr>gameState := set_hasAstronaut False (gameState g2)\<rparr>)
                else g)
      in g1\<lparr>gameState := set_phase DESCENT (gameState g1),
            lander := Lander_reset (lander g1)\<rparr>)"

definition checkCollisions :: "(nat \<Rightarrow> MeteorDraws) \<Rightarrow> Game \<Rightarrow> Game" where
  "checkCollisions D g =
     (let ph = phase (gameState g)
      in if ph = LANDED \<or> ph = GAME_OVER \<or> ph = TITLE then g
         else if fst (checkLanderMeteorCollision (lander g) (meteors g)) \<noteq> None
         then Game_loseLife g
         else if fst (checkBoundaryCollision (lander g)) then Game_loseLife g
         else
           let bulletHits = fst (checkBulletMeteorCollisions (bullets g) (meteors g));
               g1 = fold bulletHit bulletHits g
           in if ph = DESCENT then
                (case fst (checkLandingPadCollision (lander g1) (landingPads g1)) of
                   Some pad \<Rightarrow> land pad g1
                 | None \<Rightarrow>
                     if fst (checkGroundCollision (lander g1) (landingPads g1))
                     then Game_loseLife g1 else g1)
              else if ph = ASCENT then
                (if fst (checkDockingCollision (lander g1) (mothership g1)) then dock D g1
                 else g1)
              else g1)"

text \<open>
  One frame. \<open>deltaTime\<close> is the time since the last frame in seconds. Explosions, the
  animation of the static entities and the rendering are left out.
\<close>

definition gameLoop :: "InputSystem \<Rightarrow> real \<Rightarrow> (nat \<Rightarrow> MeteorDraws) \<Rightarrow> Game \<Rightarrow> Game" where
  "gameLoop inp deltaTime D g =
     (let ph = phase (gameState g)
      in if ph \<noteq> TITLE \<and> ph \<noteq> GAME_OVER
         then checkCollisions D
                (updateBullets deltaTime
                  (updateAstronaut deltaTime
                    (updateMeteors deltaTime
                      (updateLander inp deltaTime g))))
         else g)"

text \<open>A run of frames, one input snapshot for each frame.\<close>

fun frames :: "InputSystem list \<Rightarrow> real \<Rightarrow> (nat \<Rightarrow> MeteorDraws) \<Rightarrow> Game \<Rightarrow> Game" where
  "frames [] deltaTime D g = g"
| "frames (inp # rest) deltaTime D g = frames rest deltaTime D (gameLoop inp deltaTime D g)"

subsection \<open>Concrete states\<close>

text \<open>
  The game as the constructor leaves it (title screen, three pads, nothing else), random
  draws in the middle of their range and near its ends, and input snapshots.
\<close>

definition new_game :: Game where
  "new_game =
     \<lparr>gameState = initial_state, lander = Lander_new, mothership = Mothership_new,
      meteors = [], landingPads = createLandingPads, bullets = [], astronaut = None,
      timeouts = []\<rparr>"

definition middle_draws :: MeteorDraws where
  "middle_draws =
     \<lparr>d_flagship = 0.5, d_scale = 0.5, d_px = 0.5, d_py = 0.5, d_pz = 0.5,
      d_vx = 0.5, d_vy = 0.5\<rparr>"

definition big_eligible_draws :: MeteorDraws where
  "big_eligible_draws =
     \<lparr>d_flagship = 0.01, d_scale = 0.8, d_px = 0.5, d_py = 0.5, d_pz = 0.5,
      d_vx = 0.75, d_vy = 0.5\<rparr>"

definition no_keys :: InputSystem where
  "no_keys = \<lparr>enabled = True, keys = (\<lambda>a. False)\<rparr>"

definition thrust_held :: InputSystem where
  "thrust_held = \<lparr>enabled = True, keys = (\<lambda>a. a = up)\<rparr>"

definition right_held :: InputSystem where
  "right_held = \<lparr>enabled = True, keys = (\<lambda>a. a = right)\<rparr>"

text \<open>
  A descent in progress: two meteors left of the batch, the lander close to the right
  edge of the playfield.
\<close>

definition edge_game :: Game where
  "edge_game =
     new_game
       \<lparr>gameState := initial_state\<lparr>phase := DESCENT\<rparr>,
        lander := Lander_new\<lparr>pos_x := 18.9\<rparr>,
        meteors := [Meteor_new 1 middle_draws, Meteor_new 1 big_eligible_draws]\<rparr>"

text \<open>The last life: a descent in which a meteor has reached the lander.\<close>

definition last_life_game :: Game where
  "last_life_game =
     new_game
       \<lparr>gameState := initial_state\<lparr>phase := DESCENT, lives := 1\<rparr>,
        meteors := [Meteor_new 1 middle_draws,
                    (Meteor_new 1 middle_draws)\<lparr>pos_x := 0.5, pos_y := 24.5\<rparr>]\<rparr>"

text \<open>An ascent with the fifth astronaut of the level aboard.\<close>

definition four_rescued :: Game where
  "four_rescued =
     new_game
       \<lparr>gameState :=
          initial_state\<lparr>phase := ASCENT, astronautsRescued := 4, hasAstronaut := True\<rparr>\<rparr>"

text \<open>A bullet fired from the start position of the lander.\<close>

definition shot :: Bullet where
  "shot = Bullet_new (0, 23, 0)"

section \<open>Properties of the game state\<close>

lemmas Config_defs =
  GAME_WIDTH_def GAME_HEIGHT_def METEOR_COUNT_def LANDING_PADS_def INITIAL_LIVES_def
  MAX_BULLETS_def FUEL_MAX_def FUEL_CONSUMPTION_RATE_def FUEL_REFILL_ON_LAND_def
  GRAVITY_def THRUST_def HORIZONTAL_SPEED_def DESCENT_SPEED_def ASCENT_SPEED_def
  BULLET_SPEED_def MAX_DESCENT_SPEED_def SCORE_LANDING_def SCORE_RESCUE_def
  SCORE_METEOR_def SCORE_FLAGSHIP_def ASTRONAUTS_PER_LEVEL_def METEORS_PER_LEVEL_def
  FLAGSHIP_CHANCE_def FLAGSHIP_FLASH_DURATION_def

lemma fuel_set_fuel: "fuel (set_fuel v s) = v"
  by (simp add: set_fuel_def notify_def)

lemma consumeFuel_bounds:
  assumes "0 \<le> fuel s" "fuel s \<le> FUEL_MAX" "0 \<le> a"
  shows "0 \<le> fuel (snd (consumeFuel a s)) \<and> fuel (snd (consumeFuel a s)) \<le> FUEL_MAX"
  using assms by (simp add: consumeFuel_def fuel_set_fuel)

lemma refillFuel_bounds:
  assumes "0 \<le> fuel s" "fuel s \<le> FUEL_MAX" "0 \<le> a"
  shows "0 \<le> fuel (refillFuel a s) \<and> fuel (refillFuel a s) \<le> FUEL_MAX"
  using assms by (simp add: refillFuel_def fuel_set_fuel FUEL_MAX_def)

lemma fuel_step_bounds:
  assumes "0 \<le> fuel s" "fuel s \<le> FUEL_MAX" "0 \<le> amount_of p"
  shows "0 \<le> fuel (fuel_step p s) \<and> fuel (fuel_step p s) \<le> FUEL_MAX"
  using assms consumeFuel_bounds refillFuel_bounds by (cases p) simp_all

text \<open>
  Claim C10. When the fuel is at or below zero, \<open>consumeFuel\<close> returns false and leaves the
  whole manager as it was, the trace of notifications included; when the fuel is positive
  it returns true and the fuel becomes \<open>max(0, fuel - amount)\<close>, for every amount.
\<close>

theorem C10_consumeFuel:
  "(fuel s \<le> 0 \<longrightarrow> consumeFuel amount s = (False, s)) \<and>
   (fuel s > 0 \<longrightarrow> fst (consumeFuel amount s) = True \<and>
                    fuel (snd (consumeFuel amount s)) = max 0 (fuel s - amount))"
  by (simp add: consumeFuel_def fuel_set_fuel)

theorem C10_consumeFuel_witness:
  "fuel (initial_state\<lparr>fuel := 0\<rparr>) \<le> 0 \<and>
   consumeFuel 5 (initial_state\<lparr>fuel := 0\<rparr>) = (False, initial_state\<lparr>fuel := 0\<rparr>) \<and>
   fuel initial_state > 0 \<and>
   fst (consumeFuel 5 initial_state) = True \<and>
   fuel (snd (consumeFuel 5 initial_state)) = 95"
  using C10_consumeFuel [of "initial_state\<lparr>fuel := 0\<rparr>" 5] C10_consumeFuel [of initial_state 5]
  by (simp add: initial_state_def FUEL_MAX_def)

text \<open>
  Claim C5. From a fuel value in \<open>[0, FUEL_MAX]\<close>, every sequence of \<open>consumeFuel\<close> and
  \<open>refillFuel\<close> calls with non-negative amounts leaves the fuel in \<open>[0, FUEL_MAX]\<close>:
  consuming never takes it below zero, refilling never above the maximum.
\<close>

theorem C5_fuel_interval:
  assumes "0 \<le> fuel s" and "fuel s \<le> FUEL_MAX" and "\<forall>p \<in> set ps. 0 \<le> amount_of p"
  shows "0 \<le> fuel (fuel_run ps s) \<and> fuel (fuel_run ps s) \<le> FUEL_MAX"
  using assms
proof (induction ps arbitrary: s)
  case Nil
  then show ?case by simp
next
  case (Cons p ps)
  have "0 \<le> amount_of p" using Cons.prems(3) by simp
  then have "0 \<le> fuel (fuel_step p s) \<and> fuel (fuel_step p s) \<le> FUEL_MAX"
    using fuel_step_bounds Cons.prems(1,2) by blast
  moreover have "\<forall>q \<in> set ps. 0 \<le> amount_of q" using Cons.prems(3) by simp
  ultimately show ?case using Cons.IH by simp
qed

theorem C5_fuel_interval_witness:
  "0 \<le> fuel initial_state \<and> fuel initial_state \<le> FUEL_MAX \<and>
   list_all (\<lambda>p. 0 \<le> amount_of p)
     [Consume 30, Refill 200, Consume 500, Consume 1, Refill 20] \<and>
   0 \<le> fuel (fuel_run [Consume 30, Refill 200, Consume 500, Consume 1, Refill 20]
              initial_state) \<and>
   fuel (fuel_run [Consume 30, Refill 200, Consume 500, Consume 1, Refill 20]
          initial_state) \<le> FUEL_MAX \<and>
   fuel (fuel_run [Consume 30, Refill 200, Consume 500, Consume 1, Refill 20]
          initial_state) = 20"
  using C5_fuel_interval
    [of initial_state "[Consume 30, Refill 200, Consume 500, Consume 1, Refill 20]"]
  by (simp add: initial_state_def FUEL_MAX_def consumeFuel_def refillFuel_def set_fuel_def
      notify_def)

lemma js_rem_eq_0_iff: "b \<noteq> 0 \<Longrightarrow> js_rem a b = 0 \<longleftrightarrow> b dvd a"
  by (auto simp add: js_rem_def sgn_if mod_eq_0_iff_dvd)

lemma rescueAstronaut_eq:
  "rescueAstronaut s =
     (if ASTRONAUTS_PER_LEVEL dvd astronautsRescued s + 1
      then s\<lparr>astronautsRescued := astronautsRescued s + 1, score := score s + SCORE_RESCUE,
             level := level s + 1,
             notified :=
               notified s @ [''astronautsRescued'', ''score'', ''level'', ''levelUp'']\<rparr>
      else s\<lparr>astronautsRescued := astronautsRescued s + 1, score := score s + SCORE_RESCUE,
             notified := notified s @ [''astronautsRescued'', ''score'']\<rparr>)"
proof -
  have nz: "ASTRONAUTS_PER_LEVEL \<noteq> 0" by (simp add: ASTRONAUTS_PER_LEVEL_def)
  show ?thesis
    by (simp add: rescueAstronaut_def Let_def js_rem_eq_0_iff [OF nz]
        set_astronautsRescued_def addScore_def set_score_def set_level_def notify_def
        SCORE_RESCUE_def)
qed

lemma length_meteors_createMeteors:
  "length (meteors (createMeteors D g)) =
     nat (METEOR_COUNT + level (gameState g) * METEORS_PER_LEVEL)"
  by (simp add: createMeteors_def Let_def)

lemma Game_rescueAstronaut_eq:
  "Game_rescueAstronaut D g =
     (if ASTRONAUTS_PER_LEVEL dvd astronautsRescued (gameState g) + 1
      then createMeteors D (g\<lparr>gameState := rescueAstronaut (gameState g)\<rparr>)
      else g\<lparr>gameState := rescueAstronaut (gameState g)\<rparr>)"
  by (simp add: Game_rescueAstronaut_def Let_def rescueAstronaut_eq onNotified_def)

text \<open>
  Claim C4. Every call of \<open>rescueAstronaut\<close> increments the rescue count; the level goes up
  by one, and \<open>'levelUp'\<close> is notified once, so that the game's listener regenerates the
  meteor batch once, exactly when the incremented count is divisible by
  \<open>ASTRONAUTS_PER_LEVEL\<close>; otherwise the level stays, nothing is notified as a level-up and
  the batch is kept. Going from 4 to 5 rescues at level 1 gives level 2 and a batch that is
  \<open>METEORS_PER_LEVEL\<close> larger than the batch of level 1.
\<close>

theorem C4_level_up:
  "level (rescueAstronaut s) =
     (if ASTRONAUTS_PER_LEVEL dvd astronautsRescued s + 1 then level s + 1 else level s) \<and>
   astronautsRescued (rescueAstronaut s) = astronautsRescued s + 1 \<and>
   count_list (drop (length (notified s)) (notified (rescueAstronaut s))) ''levelUp'' =
     (if ASTRONAUTS_PER_LEVEL dvd astronautsRescued s + 1 then 1 else 0) \<and>
   Game_rescueAstronaut D g =
     (if ASTRONAUTS_PER_LEVEL dvd astronautsRescued (gameState g) + 1
      then createMeteors D (g\<lparr>gameState := rescueAstronaut (gameState g)\<rparr>)
      else g\<lparr>gameState := rescueAstronaut (gameState g)\<rparr>) \<and>
   (astronautsRescued (gameState g) = 4 \<and> level (gameState g) = 1 \<longrightarrow>
      level (gameState (Game_rescueAstronaut D g)) = 2 \<and>
      int (length (meteors (Game_rescueAstronaut D g))) =
        int (length (meteors (createMeteors D g))) + METEORS_PER_LEVEL)"
proof -
  have a: "level (rescueAstronaut s) =
     (if ASTRONAUTS_PER_LEVEL dvd astronautsRescued s + 1 then level s + 1 else level s)"
    by (simp add: rescueAstronaut_eq)
  have b: "astronautsRescued (rescueAstronaut s) = astronautsRescued s + 1"
    by (simp add: rescueAstronaut_eq)
  have c: "count_list (drop (length (notified s)) (notified (rescueAstronaut s))) ''levelUp'' =
     (if ASTRONAUTS_PER_LEVEL dvd astronautsRescued s + 1 then 1 else 0)"
    by (simp add: rescueAstronaut_eq)
  have d: "astronautsRescued (gameState g) = 4 \<and> level (gameState g) = 1 \<longrightarrow>
      level (gameState (Game_rescueAstronaut D g)) = 2 \<and>
      int (length (meteors (Game_rescueAstronaut D g))) =
        int (length (meteors (createMeteors D g))) + METEORS_PER_LEVEL"
    by (simp add: Game_rescueAstronaut_eq length_meteors_createMeteors rescueAstronaut_eq
        createMeteors_def ASTRONAUTS_PER_LEVEL_def METEORS_PER_LEVEL_def METEOR_COUNT_def)
  show ?thesis using a b c d Game_rescueAstronaut_eq by blast
qed

theorem C4_level_up_witness:
  "astronautsRescued (gameState four_rescued) = 4 \<and>
   level (gameState four_rescued) = 1 \<and>
   level (gameState (Game_rescueAstronaut (\<lambda>i. middle_draws) four_rescued)) = 2 \<and>
   length (meteors (createMeteors (\<lambda>i. middle_draws) four_rescued)) = 28 \<and>
   length (meteors (Game_rescueAstronaut (\<lambda>i. middle_draws) four_rescued)) = 31"
proof -
  have h: "astronautsRescued (gameState four_rescued) = 4 \<and>
           level (gameState four_rescued) = 1"
    by (simp add: four_rescued_def new_game_def initial_state_def)
  have "astronautsRescued (gameState four_rescued) = 4 \<and>
        level (gameState four_rescued) = 1 \<longrightarrow>
      level (gameState (Game_rescueAstronaut (\<lambda>i. middle_draws) four_rescued)) = 2 \<and>
      int (length (meteors (Game_rescueAstronaut (\<lambda>i. middle_draws) four_rescued))) =
        int (length (meteors (createMeteors (\<lambda>i. middle_draws) four_rescued)))
          + METEORS_PER_LEVEL"
    using C4_level_up [of "gameState four_rescued" "\<lambda>i. middle_draws" four_rescued]
    by blast
  with h have r:
    "level (gameState (Game_rescueAstronaut (\<lambda>i. middle_draws) four_rescued)) = 2 \<and>
     int (length (meteors (Game_rescueAstronaut (\<lambda>i. middle_draws) four_rescued))) =
       int (length (meteors (createMeteors (\<lambda>i. middle_draws) four_rescued)))
         + METEORS_PER_LEVEL"
    by blast
  have n: "length (meteors (createMeteors (\<lambda>i. middle_draws) four_rescued)) = 28"
    using h by (simp add: length_meteors_createMeteors METEOR_COUNT_def METEORS_PER_LEVEL_def)
  show ?thesis using h r n by (simp add: METEORS_PER_LEVEL_def)
qed

section \<open>Properties of the lander and of the frame\<close>

lemmas Lander_defs =
  setThrusterVisible_def Lander_reset_def Lander_new_def applyThrust_def moveHorizontal_def
  applyGravity_def easeRotation_def clampPosition_def Lander_update_def startAscent_def
  boostAscent_def isAtGroundLevel_def reachedMothership_def isInDockingRange_def
  isOutOfBounds_def

lemmas State_defs =
  notify_def GameStateManager_reset_def set_phase_def set_score_def set_lives_def
  set_astronautsRescued_def set_fuel_def set_hasAstronaut_def set_level_def addScore_def
  consumeFuel_def refillFuel_def loseLife_def initial_state_def

text \<open>The sphere test without the square root, for evaluation.\<close>

lemma sqrt_less_iff: "0 \<le> s \<Longrightarrow> sqrt s < r \<longleftrightarrow> 0 < r \<and> s < r\<^sup>2"
  by (metis real_sqrt_less_iff real_sqrt_abs abs_of_pos not_le real_sqrt_ge_zero
      less_le_trans)

lemma collidesWith_iff:
  "collidesWith a b \<longleftrightarrow>
     active a \<and> active b \<and> 0 < radius a + radius b \<and>
     (pos_x a - pos_x b)\<^sup>2 + (pos_y a - pos_y b)\<^sup>2 + (pos_z a - pos_z b)\<^sup>2
       < (radius a + radius b)\<^sup>2"
  by (auto simp add: collidesWith_def distanceTo_def sqrt_less_iff)

lemma vel_y_applyGravity: "MAX_DESCENT_SPEED \<le> vel_y (applyGravity l)"
  by (simp add: applyGravity_def)

lemma vel_y_applyGravity_funpow:
  "MAX_DESCENT_SPEED \<le> vel_y l \<Longrightarrow> MAX_DESCENT_SPEED \<le> vel_y ((applyGravity ^^ n) l)"
  by (induction n) (simp_all add: vel_y_applyGravity)

lemma vel_y_Lander_reset: "vel_y (Lander_reset l) = DESCENT_SPEED"
  by (simp add: Lander_reset_def setThrusterVisible_def)

lemma vel_y_updateDescentPhase:
  "MAX_DESCENT_SPEED \<le> vel_y (lander (updateDescentPhase inp dt g))"
  using vel_y_applyGravity [of "lander g"]
  by (simp add: updateDescentPhase_def Let_def setThrusterVisible_def applyThrust_def
      moveHorizontal_def easeRotation_def THRUST_def)

lemmas Meteor_defs =
  Meteor_createMesh_def randomize_def Meteor_new_def transformToFlagship_def Meteor_update_def

lemmas Collision_defs =
  checkLanderMeteorCollision_def checkBulletMeteorCollisions_def checkLandingPadCollision_def
  checkGroundCollision_def checkDockingCollision_def checkBoundaryCollision_def

lemmas Game_defs =
  isPressed_def createMeteors_def createAstronaut_def onNotified_def Game_rescueAstronaut_def
  gameOver_def Game_loseLife_def createLander_def startGame_def updateDescentPhase_def
  updateAscentPhase_def updateLander_def updateMeteors_def updateAstronaut_def
  updateBullets_def bulletHit_def land_def dock_def checkCollisions_def gameLoop_def

text \<open>
  Claim C9. After every call of \<open>applyGravity\<close> the vertical velocity is at least
  \<open>MAX_DESCENT_SPEED\<close>, a negative value; so it is after any number of calls from the reset
  velocity, and after the descent update of any frame.
\<close>

theorem C9_descent_floor:
  "MAX_DESCENT_SPEED \<le> vel_y (applyGravity l) \<and>
   MAX_DESCENT_SPEED \<le> vel_y ((applyGravity ^^ n) (Lander_reset l)) \<and>
   MAX_DESCENT_SPEED \<le> vel_y (lander (updateDescentPhase inp deltaTime g)) \<and>
   MAX_DESCENT_SPEED < 0"
proof -
  have "MAX_DESCENT_SPEED \<le> vel_y (Lander_reset l)"
    by (simp add: vel_y_Lander_reset DESCENT_SPEED_def MAX_DESCENT_SPEED_def)
  then show ?thesis
    using vel_y_applyGravity vel_y_applyGravity_funpow vel_y_updateDescentPhase
    by (simp add: MAX_DESCENT_SPEED_def)
qed

theorem C9_descent_floor_witness:
  "vel_y ((applyGravity ^^ 14) (Lander_reset Lander_new)) = - 0.29 \<and>
   vel_y ((applyGravity ^^ 15) (Lander_reset Lander_new)) = MAX_DESCENT_SPEED \<and>
   MAX_DESCENT_SPEED \<le> vel_y ((applyGravity ^^ 40) (Lander_reset Lander_new))"
  using C9_descent_floor [of Lander_new 40 no_keys 0 new_game]
  by (simp add: eval_nat_numeral Lander_defs Config_defs)

text \<open>
  A descent frame with thrust: gravity with its floor, then the thrust on top. From any
  velocity above \<open>-0.025\<close> the frame ends with the lander rising.
\<close>

lemma thrust_frame_velocity:
  assumes "active (lander g)" and "phase (gameState g) = DESCENT"
    and "isPressed inp up" and "fuel (gameState g) > 0"
  shows "vel_y (lander (updateLander inp dt g)) =
           max (vel_y (lander g) + GRAVITY) MAX_DESCENT_SPEED + THRUST"
  using assms
  by (simp add: updateLander_def updateDescentPhase_def Let_def Lander_update_def
      clampPosition_def setThrusterVisible_def applyThrust_def applyGravity_def
      moveHorizontal_def easeRotation_def)

lemma thrust_frame_ascends:
  assumes "active (lander g)" and "phase (gameState g) = DESCENT"
    and "isPressed inp up" and "fuel (gameState g) > 0"
    and "- 0.025 < vel_y (lander g)"
  shows "0 < vel_y (lander (updateLander inp dt g))"
  using assms(5) thrust_frame_velocity [OF assms(1-4), of dt]
  by (simp add: GRAVITY_def THRUST_def MAX_DESCENT_SPEED_def max_def split: if_splits)

text \<open>
  Claim C1, at a failing input. The claim: a descent frame never takes a vertical velocity
  that is at most zero to a positive one. In the game just started, with thrust held, the
  velocity is \<open>-0.005\<close> after three frames and \<open>0.02\<close> after the fourth: a frame adds
  \<open>GRAVITY + THRUST = 0.025\<close> and nothing caps the sum at zero.
\<close>

theorem C1_thrust_ascends:
  "phase (gameState (startGame (\<lambda>i. middle_draws) new_game)) = DESCENT \<and>
   vel_y (lander ((updateLander thrust_held 0.016 ^^ 3)
     (startGame (\<lambda>i. middle_draws) new_game))) = - 0.005 \<and>
   fuel (gameState ((updateLander thrust_held 0.016 ^^ 3)
     (startGame (\<lambda>i. middle_draws) new_game))) = 99.28 \<and>
   vel_y (lander ((updateLander thrust_held 0.016 ^^ 4)
     (startGame (\<lambda>i. middle_draws) new_game))) = 0.02"
  by (simp add: eval_nat_numeral startGame_def createLander_def createMeteors_def Let_def
       new_game_def updateLander_def updateDescentPhase_def isPressed_def thrust_held_def
       Lander_defs State_defs Config_defs)

text \<open>
  \<open>Lander.update\<close> clamps the position it has just moved, so the lander it leaves is never
  out of bounds, and the boundary check that follows in the frame finds nothing.
\<close>

lemma not_isOutOfBounds_Lander_update:
  "active l \<Longrightarrow> \<not> isOutOfBounds (Lander_update dt l)"
  by (simp add: isOutOfBounds_def Lander_update_def clampPosition_def Let_def GAME_WIDTH_def)

lemma pos_x_lander_updates:
  "pos_x (lander (updateBullets dt (updateAstronaut dt (updateMeteors dt g)))) =
     pos_x (lander g)"
  by (simp add: updateBullets_def updateAstronaut_def updateMeteors_def startAscent_def
      split_beta Let_def split: option.splits)

lemma boundary_check_never_fires:
  assumes "active (lander g)"
  shows "\<not> fst (checkBoundaryCollision
           (lander (updateBullets dt (updateAstronaut dt (updateMeteors dt
              (updateLander inp dt g))))))"
proof -
  have "\<not> isOutOfBounds (lander (updateLander inp dt g))"
    using assms not_isOutOfBounds_Lander_update
    by (simp add: updateLander_def Let_def updateDescentPhase_def updateAscentPhase_def
        setThrusterVisible_def applyThrust_def applyGravity_def moveHorizontal_def
        easeRotation_def boostAscent_def)
  then show ?thesis
    using pos_x_lander_updates [of dt "updateLander inp dt g"]
    by (simp add: checkBoundaryCollision_def isOutOfBounds_def Let_def)
qed

text \<open>
  Claim C3, at a failing input. The claim: a frame in which the position after the movement
  and before the clamp is beyond \<open>GAME_WIDTH / 2 - 1 = 19\<close> loses a life. With the lander at
  \<open>18.9\<close> and the right key held, the movement of the frame takes it to \<open>19.2\<close>; the clamp
  of \<open>Lander.update\<close> puts it at \<open>19\<close> before \<open>checkCollisions\<close> runs, the boundary check is
  false, and the frame ends with the same lives, in the same phase, with nothing scheduled.
\<close>

theorem C3_edge_frame:
  "phase (gameState edge_game) = DESCENT \<and>
   pos_x (lander (updateDescentPhase right_held 0.016 edge_game)) +
     vel_x (lander (updateDescentPhase right_held 0.016 edge_game)) = 19.2 \<and>
   GAME_WIDTH / 2 - 1 = 19 \<and>
   pos_x (lander (gameLoop right_held 0.016 (\<lambda>i. middle_draws) edge_game)) = 19 \<and>
   fst (checkBoundaryCollision (lander (updateLander right_held 0.016 edge_game))) = False \<and>
   lives (gameState (gameLoop right_held 0.016 (\<lambda>i. middle_draws) edge_game)) =
     lives (gameState edge_game) \<and>
   phase (gameState (gameLoop right_held 0.016 (\<lambda>i. middle_draws) edge_game)) = DESCENT \<and>
   timeouts (gameLoop right_held 0.016 (\<lambda>i. middle_draws) edge_game) = []"
  by (simp add: edge_game_def new_game_def right_held_def middle_draws_def
      big_eligible_draws_def Game_defs Collision_defs Meteor_defs Lander_defs State_defs
      Config_defs collidesWith_iff Let_def power2_eq_square createLandingPads_def
      LandingPad_new_def isPositionOverPad_def Mothership_new_def)

section \<open>Properties of the collision queries\<close>

lemma landerMeteorLoop_filter:
  "landerMeteorLoop l (filter active ms) = landerMeteorLoop l ms"
  by (induction ms) simp_all

lemma landerMeteorLoop_Some:
  "fst (landerMeteorLoop l ms) = Some m \<Longrightarrow> m \<in> set ms \<and> active m \<and> collidesWith l m"
  by (induction ms) (auto split: if_splits)

lemma landerMeteorLoop_trace:
  "snd (landerMeteorLoop l ms) =
     (case fst (landerMeteorLoop l ms) of None \<Rightarrow> [] | Some m \<Rightarrow> [lander_meteor l m])"
  by (induction ms) simp_all

lemma bulletMeteorInner_filter:
  "bulletMeteorInner b (filter active ms) = bulletMeteorInner b ms"
  by (induction ms) simp_all

lemma bulletMeteorInner_set:
  "(b', m) \<in> set (bulletMeteorInner b ms) \<Longrightarrow>
     b' = b \<and> m \<in> set ms \<and> active m \<and> collidesWith b m"
  by (induction ms) (auto split: if_splits)

lemma bulletMeteorOuter_filter:
  "bulletMeteorOuter (filter active bs) (filter active ms) = bulletMeteorOuter bs ms"
  by (induction bs) (simp_all add: bulletMeteorInner_filter)

lemma bulletMeteorOuter_set:
  "(b, m) \<in> set (bulletMeteorOuter bs ms) \<Longrightarrow>
     b \<in> set bs \<and> active b \<and> m \<in> set ms \<and> active m \<and> collidesWith b m"
  by (induction bs) (auto split: if_splits dest: bulletMeteorInner_set)

text \<open>The positional queries under a change of the \<open>active\<close> flags.\<close>

lemma firstPadUnder_flags:
  "firstPadUnder x (map (\<lambda>p. p\<lparr>active := padFlag p\<rparr>) pads) =
     map_option (\<lambda>p. p\<lparr>active := padFlag p\<rparr>) (firstPadUnder x pads)"
  by (induction pads) (simp_all add: isPositionOverPad_def)

lemma firstPadUnder_same_up_to_flags:
  assumes "map (\<lambda>p. p\<lparr>active := True\<rparr>) pads = map (\<lambda>p. p\<lparr>active := True\<rparr>) pads'"
  shows "map_option (\<lambda>p. p\<lparr>active := True\<rparr>) (firstPadUnder x pads) =
         map_option (\<lambda>p. p\<lparr>active := True\<rparr>) (firstPadUnder x pads')"
  using firstPadUnder_flags [of x "\<lambda>p. True" pads] firstPadUnder_flags [of x "\<lambda>p. True" pads']
    assms
  by simp

lemma positional_queries_flags:
  "fst (checkLandingPadCollision (l\<lparr>active := flag\<rparr>) (map (\<lambda>p. p\<lparr>active := padFlag p\<rparr>) pads)) =
     map_option (\<lambda>p. p\<lparr>active := padFlag p\<rparr>) (fst (checkLandingPadCollision l pads)) \<and>
   fst (checkGroundCollision (l\<lparr>active := flag\<rparr>) (map (\<lambda>p. p\<lparr>active := padFlag p\<rparr>) pads)) =
     fst (checkGroundCollision l pads) \<and>
   fst (checkDockingCollision (l\<lparr>active := flag\<rparr>) (ship\<lparr>active := shipFlag\<rparr>)) =
     fst (checkDockingCollision l ship)"
  by (simp add: checkLandingPadCollision_def checkGroundCollision_def checkDockingCollision_def
      isAtGroundLevel_def reachedMothership_def isInDockingRange_def firstPadUnder_flags
      split: option.splits)

lemma positional_queries_same_up_to_flags:
  assumes "map (\<lambda>p. p\<lparr>active := True\<rparr>) pads = map (\<lambda>p. p\<lparr>active := True\<rparr>) pads'"
  shows "map_option (\<lambda>p. p\<lparr>active := True\<rparr>) (fst (checkLandingPadCollision l pads)) =
         map_option (\<lambda>p. p\<lparr>active := True\<rparr>) (fst (checkLandingPadCollision l pads')) \<and>
         fst (checkGroundCollision l pads) = fst (checkGroundCollision l pads')"
proof -
  note e = firstPadUnder_same_up_to_flags [OF assms, of "pos_x l"]
  have "map_option (\<lambda>p. p\<lparr>active := True\<rparr>) (fst (checkLandingPadCollision l pads)) =
         map_option (\<lambda>p. p\<lparr>active := True\<rparr>) (fst (checkLandingPadCollision l pads'))"
    using e by (auto simp add: checkLandingPadCollision_def split: option.splits)
  moreover have "fst (checkGroundCollision l pads) = fst (checkGroundCollision l pads')"
    using e by (auto simp add: checkGroundCollision_def split: option.splits)
  ultimately show ?thesis by blast
qed

text \<open>
  Claim C2, amended. The two pool queries exclude inactive entities: with an inactive
  lander \<open>checkLanderMeteorCollision\<close> reports nothing; a meteor it returns is an active
  meteor of the list, and a pair that \<open>checkBulletMeteorCollisions\<close> returns is an active
  bullet with an active meteor; both give the same result and make the same calls of
  \<open>triggerCollision\<close> when the inactive entities are taken out of the lists; and a meteor
  deactivated anywhere in the batch is in no later result of either query. The four
  positional queries (pad, ground, docking, boundary) answer from the positions alone and
  consult no \<open>active\<close> flag: the answer is the same whatever the flag of the lander, of
  any pad and of the mothership, the pad returned being the same pad of the list with the
  flag it has there; pad lists that differ only in their flags get the same answers.
\<close>

theorem C2_pool_queries:
  "(\<not> active l \<longrightarrow> checkLanderMeteorCollision l ms = (None, [])) \<and>
   (\<forall>m. fst (checkLanderMeteorCollision l ms) = Some m \<longrightarrow>
      active l \<and> m \<in> set ms \<and> active m \<and>
      snd (checkLanderMeteorCollision l ms) = [lander_meteor l m]) \<and>
   (fst (checkLanderMeteorCollision l ms) = None \<longrightarrow>
      snd (checkLanderMeteorCollision l ms) = []) \<and>
   checkLanderMeteorCollision l (filter active ms) = checkLanderMeteorCollision l ms \<and>
   (\<forall>b m. (b, m) \<in> set (fst (checkBulletMeteorCollisions bs ms)) \<longrightarrow>
      b \<in> set bs \<and> active b \<and> m \<in> set ms \<and> active m) \<and>
   snd (checkBulletMeteorCollisions bs ms) =
     map (\<lambda>(b, m). bullet_meteor b m) (fst (checkBulletMeteorCollisions bs ms)) \<and>
   checkBulletMeteorCollisions (filter active bs) (filter active ms) =
     checkBulletMeteorCollisions bs ms \<and>
   (i < length ms \<longrightarrow>
      fst (checkLanderMeteorCollision l (ms[i := (ms ! i)\<lparr>active := False\<rparr>]))
        \<noteq> Some ((ms ! i)\<lparr>active := False\<rparr>) \<and>
      (\<forall>b. (b, (ms ! i)\<lparr>active := False\<rparr>) \<notin>
         set (fst (checkBulletMeteorCollisions bs (ms[i := (ms ! i)\<lparr>active := False\<rparr>]))))) \<and>
   fst (checkLandingPadCollision (l\<lparr>active := flag\<rparr>) pads) =
     fst (checkLandingPadCollision l pads) \<and>
   fst (checkGroundCollision (l\<lparr>active := flag\<rparr>) pads) = fst (checkGroundCollision l pads) \<and>
   fst (checkDockingCollision (l\<lparr>active := flag\<rparr>) ship) =
     fst (checkDockingCollision l ship) \<and>
   fst (checkBoundaryCollision (l\<lparr>active := flag\<rparr>)) = fst (checkBoundaryCollision l) \<and>
   fst (checkLandingPadCollision (l\<lparr>active := flag\<rparr>)
          (map (\<lambda>p. p\<lparr>active := padFlag p\<rparr>) pads)) =
     map_option (\<lambda>p. p\<lparr>active := padFlag p\<rparr>) (fst (checkLandingPadCollision l pads)) \<and>
   fst (checkGroundCollision (l\<lparr>active := flag\<rparr>)
          (map (\<lambda>p. p\<lparr>active := padFlag p\<rparr>) pads)) =
     fst (checkGroundCollision l pads) \<and>
   fst (checkDockingCollision (l\<lparr>active := flag\<rparr>) (ship\<lparr>active := shipFlag\<rparr>)) =
     fst (checkDockingCollision l ship) \<and>
   (map (\<lambda>p. p\<lparr>active := True\<rparr>) pads = map (\<lambda>p. p\<lparr>active := True\<rparr>) pads' \<longrightarrow>
      map_option (\<lambda>p. p\<lparr>active := True\<rparr>) (fst (checkLandingPadCollision l pads)) =
        map_option (\<lambda>p. p\<lparr>active := True\<rparr>) (fst (checkLandingPadCollision l pads')) \<and>
      fst (checkGroundCollision l pads) = fst (checkGroundCollision l pads'))"
proof -
  have a: "\<not> active l \<longrightarrow> checkLanderMeteorCollision l ms = (None, [])"
    by (simp add: checkLanderMeteorCollision_def)
  have b: "fst (checkLanderMeteorCollision l xs) = Some m \<longrightarrow>
      active l \<and> m \<in> set xs \<and> active m \<and>
      snd (checkLanderMeteorCollision l xs) = [lander_meteor l m]" for m xs
    using landerMeteorLoop_Some [of l xs m] landerMeteorLoop_trace [of l xs]
    by (auto simp add: checkLanderMeteorCollision_def split: if_splits)
  have c: "fst (checkLanderMeteorCollision l ms) = None \<longrightarrow>
      snd (checkLanderMeteorCollision l ms) = []"
    using landerMeteorLoop_trace [of l ms]
    by (auto simp add: checkLanderMeteorCollision_def split: if_splits)
  have d: "checkLanderMeteorCollision l (filter active ms) = checkLanderMeteorCollision l ms"
    by (simp add: checkLanderMeteorCollision_def landerMeteorLoop_filter)
  have e: "(b, m) \<in> set (fst (checkBulletMeteorCollisions bs xs)) \<longrightarrow>
      b \<in> set bs \<and> active b \<and> m \<in> set xs \<and> active m" for b m xs
    using bulletMeteorOuter_set [of b m bs xs]
    by (simp add: checkBulletMeteorCollisions_def Let_def)
  have f: "snd (checkBulletMeteorCollisions bs ms) =
     map (\<lambda>(b, m). bullet_meteor b m) (fst (checkBulletMeteorCollisions bs ms))"
    by (simp add: checkBulletMeteorCollisions_def Let_def)
  have g: "checkBulletMeteorCollisions (filter active bs) (filter active ms) =
     checkBulletMeteorCollisions bs ms"
    by (simp add: checkBulletMeteorCollisions_def bulletMeteorOuter_filter)
  have h: "i < length ms \<longrightarrow>
      fst (checkLanderMeteorCollision l (ms[i := (ms ! i)\<lparr>active := False\<rparr>]))
        \<noteq> Some ((ms ! i)\<lparr>active := False\<rparr>) \<and>
      (\<forall>b. (b, (ms ! i)\<lparr>active := False\<rparr>) \<notin>
         set (fst (checkBulletMeteorCollisions bs (ms[i := (ms ! i)\<lparr>active := False\<rparr>]))))"
    using b [of "ms[i := (ms ! i)\<lparr>active := False\<rparr>]" "(ms ! i)\<lparr>active := False\<rparr>"]
      e [of _ "(ms ! i)\<lparr>active := False\<rparr>" "ms[i := (ms ! i)\<lparr>active := False\<rparr>]"]
    by auto
  have p: "fst (checkLandingPadCollision (l\<lparr>active := flag\<rparr>) pads) =
     fst (checkLandingPadCollision l pads)"
    by (simp add: checkLandingPadCollision_def isAtGroundLevel_def split: option.splits)
  have q: "fst (checkGroundCollision (l\<lparr>active := flag\<rparr>) pads) =
     fst (checkGroundCollision l pads)"
    by (simp add: checkGroundCollision_def isAtGroundLevel_def split: option.splits)
  have r: "fst (checkDockingCollision (l\<lparr>active := flag\<rparr>) ship) =
     fst (checkDockingCollision l ship)"
    by (simp add: checkDockingCollision_def reachedMothership_def isInDockingRange_def)
  have s: "fst (checkBoundaryCollision (l\<lparr>active := flag\<rparr>)) =
     fst (checkBoundaryCollision l)"
    by (simp add: checkBoundaryCollision_def isOutOfBounds_def)
  note t = positional_queries_flags
    [where l = l and flag = flag and padFlag = padFlag and pads = pads and ship = ship
       and shipFlag = shipFlag]
  have u: "map (\<lambda>p. p\<lparr>active := True\<rparr>) pads = map (\<lambda>p. p\<lparr>active := True\<rparr>) pads' \<longrightarrow>
      map_option (\<lambda>p. p\<lparr>active := True\<rparr>) (fst (checkLandingPadCollision l pads)) =
        map_option (\<lambda>p. p\<lparr>active := True\<rparr>) (fst (checkLandingPadCollision l pads')) \<and>
      fst (checkGroundCollision l pads) = fst (checkGroundCollision l pads')"
    using positional_queries_same_up_to_flags [of pads pads' l] by blast
  show ?thesis using a b [of ms] c d e [of _ _ ms] f g h p q r s t u by blast
qed

lemma createLandingPads_eq:
  "createLandingPads = [LandingPad_new (- 10) 0, LandingPad_new 0 1, LandingPad_new 10 2]"
  by (simp add: createLandingPads_def LANDING_PADS_def GAME_WIDTH_def Let_def
      eval_nat_numeral)

text \<open>
  Claim C2 as stated fails for the positional queries: an inactive lander beyond the edge
  is reported by the boundary check, one at the mothership by the docking check, one on
  the ground beside the pads by the ground check, and an inactive pad under the lander is
  returned by the pad check.
\<close>

theorem C2_counterexample:
  "\<not> active (Lander_new\<lparr>active := False, pos_x := 25\<rparr>) \<and>
   fst (checkBoundaryCollision (Lander_new\<lparr>active := False, pos_x := 25\<rparr>)) = True \<and>
   snd (checkBoundaryCollision (Lander_new\<lparr>active := False, pos_x := 25\<rparr>)) =
     [lander_boundary (Lander_new\<lparr>active := False, pos_x := 25\<rparr>)] \<and>
   \<not> active (Lander_new\<lparr>active := False, pos_y := 25\<rparr>) \<and>
   fst (checkDockingCollision (Lander_new\<lparr>active := False, pos_y := 25\<rparr>) Mothership_new)
     = True \<and>
   \<not> active (Lander_new\<lparr>active := False, pos_x := 5, pos_y := - 28\<rparr>) \<and>
   fst (checkGroundCollision (Lander_new\<lparr>active := False, pos_x := 5, pos_y := - 28\<rparr>)
          createLandingPads) = True \<and>
   \<not> active ((LandingPad_new 0 1)\<lparr>active := False\<rparr>) \<and>
   fst (checkLandingPadCollision (Lander_new\<lparr>pos_y := - 28\<rparr>)
          [(LandingPad_new 0 1)\<lparr>active := False\<rparr>]) =
     Some ((LandingPad_new 0 1)\<lparr>active := False\<rparr>)"
  by (simp add: Collision_defs Lander_defs Config_defs createLandingPads_eq LandingPad_new_def
      isPositionOverPad_def Let_def)

theorem C2_pool_queries_witness:
  "1 < length (meteors last_life_game) \<and>
   active Lander_new \<and>
   fst (checkLanderMeteorCollision Lander_new (meteors last_life_game)) =
     Some (meteors last_life_game ! 1) \<and>
   fst (checkLanderMeteorCollision Lander_new
          ((meteors last_life_game)
             [1 := (meteors last_life_game ! 1)\<lparr>active := False\<rparr>])) = None \<and>
   fst (checkBulletMeteorCollisions [shot] (meteors last_life_game)) =
     [(shot, meteors last_life_game ! 1)] \<and>
   fst (checkBulletMeteorCollisions [shot]
          ((meteors last_life_game)
             [1 := (meteors last_life_game ! 1)\<lparr>active := False\<rparr>])) = [] \<and>
   checkLanderMeteorCollision (Lander_new\<lparr>active := False\<rparr>) (meteors last_life_game) =
     (None, []) \<and>
   map (\<lambda>p. p\<lparr>active := True\<rparr>) [LandingPad_new 0 1] =
     map (\<lambda>p. p\<lparr>active := True\<rparr>) [(LandingPad_new 0 1)\<lparr>active := False\<rparr>] \<and>
   fst (checkLandingPadCollision (Lander_new\<lparr>pos_y := - 28\<rparr>) [LandingPad_new 0 1]) =
     Some (LandingPad_new 0 1) \<and>
   map_option (\<lambda>p. p\<lparr>active := True\<rparr>)
     (fst (checkLandingPadCollision (Lander_new\<lparr>pos_y := - 28\<rparr>)
            [(LandingPad_new 0 1)\<lparr>active := False\<rparr>])) =
     Some (LandingPad_new 0 1) \<and>
   fst (checkLandingPadCollision (Lander_new\<lparr>pos_y := - 28, active := False\<rparr>)
          (map (\<lambda>p. p\<lparr>active := False\<rparr>) createLandingPads)) =
     Some ((LandingPad_new 0 1)\<lparr>active := False\<rparr>) \<and>
   fst (checkDockingCollision (Lander_new\<lparr>pos_y := 25, active := False\<rparr>)
          (Mothership_new\<lparr>active := False\<rparr>)) = True"
proof -
  have pools:
    "1 < length (meteors last_life_game) \<and>
     active Lander_new \<and>
     fst (checkLanderMeteorCollision Lander_new (meteors last_life_game)) =
       Some (meteors last_life_game ! 1) \<and>
     fst (checkLanderMeteorCollision Lander_new
            ((meteors last_life_game)
               [1 := (meteors last_life_game ! 1)\<lparr>active := False\<rparr>])) = None \<and>
     fst (checkBulletMeteorCollisions [shot] (meteors last_life_game)) =
       [(shot, meteors last_life_game ! 1)] \<and>
     fst (checkBulletMeteorCollisions [shot]
            ((meteors last_life_game)
               [1 := (meteors last_life_game ! 1)\<lparr>active := False\<rparr>])) = [] \<and>
     checkLanderMeteorCollision (Lander_new\<lparr>active := False\<rparr>) (meteors last_life_game) =
       (None, [])"
    by (simp add: last_life_game_def new_game_def shot_def Bullet_new_def
        checkLanderMeteorCollision_def checkBulletMeteorCollisions_def
        collidesWith_iff Meteor_new_def Meteor_createMesh_def randomize_def middle_draws_def
        Lander_defs Config_defs power2_eq_square)
  have inactive_lander: "\<not> active (Lander_new\<lparr>active := False\<rparr>)"
    by simp
  have none: "checkLanderMeteorCollision (Lander_new\<lparr>active := False\<rparr>)
                (meteors last_life_game) = (None, [])"
    using inactive_lander
      C2_pool_queries [where l = "Lander_new\<lparr>active := False\<rparr>"
        and ms = "meteors last_life_game"]
    by presburger
  have gone: "fst (checkLanderMeteorCollision Lander_new
            ((meteors last_life_game)
               [1 := (meteors last_life_game ! 1)\<lparr>active := False\<rparr>]))
          \<noteq> Some ((meteors last_life_game ! 1)\<lparr>active := False\<rparr>)"
    using pools
      C2_pool_queries [where l = Lander_new and ms = "meteors last_life_game" and i = 1]
    by presburger
  have same: "map (\<lambda>p. p\<lparr>active := True\<rparr>) [LandingPad_new 0 1] =
     map (\<lambda>p. p\<lparr>active := True\<rparr>) [(LandingPad_new 0 1)\<lparr>active := False\<rparr>]"
    by simp
  have on_pad: "fst (checkLandingPadCollision (Lander_new\<lparr>pos_y := - 28\<rparr>)
                  [LandingPad_new 0 1]) = Some (LandingPad_new 0 1)"
    by (simp add: checkLandingPadCollision_def isPositionOverPad_def LandingPad_new_def
        Lander_defs Config_defs)
  have on_pads: "fst (checkLandingPadCollision (Lander_new\<lparr>pos_y := - 28\<rparr>)
                  createLandingPads) = Some (LandingPad_new 0 1)"
    by (simp add: checkLandingPadCollision_def isPositionOverPad_def LandingPad_new_def
        createLandingPads_eq Lander_defs Config_defs)
  have docks: "fst (checkDockingCollision (Lander_new\<lparr>pos_y := 25\<rparr>) Mothership_new) = True"
    by (simp add: checkDockingCollision_def Lander_defs Config_defs)
  have off: "map_option (\<lambda>p. p\<lparr>active := True\<rparr>)
     (fst (checkLandingPadCollision (Lander_new\<lparr>pos_y := - 28\<rparr>)
            [(LandingPad_new 0 1)\<lparr>active := False\<rparr>])) =
     map_option (\<lambda>p. p\<lparr>active := True\<rparr>)
     (fst (checkLandingPadCollision (Lander_new\<lparr>pos_y := - 28\<rparr>) [LandingPad_new 0 1]))"
    using same
      C2_pool_queries [where l = "Lander_new\<lparr>pos_y := - 28\<rparr>"
        and pads = "[LandingPad_new 0 1]"
        and pads' = "[(LandingPad_new 0 1)\<lparr>active := False\<rparr>]"]
    by presburger
  have flags:
    "fst (checkLandingPadCollision (Lander_new\<lparr>pos_y := - 28, active := False\<rparr>)
          (map (\<lambda>p. p\<lparr>active := False\<rparr>) createLandingPads)) =
       map_option (\<lambda>p. p\<lparr>active := False\<rparr>)
         (fst (checkLandingPadCollision (Lander_new\<lparr>pos_y := - 28\<rparr>) createLandingPads)) \<and>
     fst (checkDockingCollision (Lander_new\<lparr>pos_y := 25, active := False\<rparr>)
          (Mothership_new\<lparr>active := False\<rparr>)) =
       fst (checkDockingCollision (Lander_new\<lparr>pos_y := 25\<rparr>) Mothership_new)"
    using C2_pool_queries [where l = "Lander_new\<lparr>pos_y := - 28\<rparr>" and flag = False
        and padFlag = "\<lambda>p. False" and pads = createLandingPads]
      C2_pool_queries [where l = "Lander_new\<lparr>pos_y := 25\<rparr>" and flag = False
        and ship = Mothership_new and shipFlag = False]
    by presburger
  have off_pad: "map_option (\<lambda>p. p\<lparr>active := True\<rparr>)
     (fst (checkLandingPadCollision (Lander_new\<lparr>pos_y := - 28\<rparr>)
            [(LandingPad_new 0 1)\<lparr>active := False\<rparr>])) =
     Some (LandingPad_new 0 1)"
    unfolding off on_pad by (simp add: LandingPad_new_def)
  have all_off: "fst (checkLandingPadCollision (Lander_new\<lparr>pos_y := - 28, active := False\<rparr>)
          (map (\<lambda>p. p\<lparr>active := False\<rparr>) createLandingPads)) =
     Some ((LandingPad_new 0 1)\<lparr>active := False\<rparr>)"
    unfolding flags [THEN conjunct1] on_pads by simp
  have ship_off: "fst (checkDockingCollision (Lander_new\<lparr>pos_y := 25, active := False\<rparr>)
          (Mothership_new\<lparr>active := False\<rparr>)) = True"
    unfolding flags [THEN conjunct2] docks by simp
  show ?thesis
    using pools none gone same on_pad off_pad all_off ship_off by blast
qed

lemma Game_loseLife_last:
  assumes "lives (gameState g) = 1"
  shows "lives (gameState (Game_loseLife g)) = 0 \<and>
         phase (gameState (Game_loseLife g)) = GAME_OVER \<and>
         timeouts (Game_loseLife g) = timeouts g"
  using assms
  by (simp add: Game_loseLife_def loseLife_def gameOver_def set_lives_def set_phase_def
      notify_def Let_def)

text \<open>
  Claim C8. With one life left, in a phase in which collisions are checked, a collision of
  the lander with a meteor takes the lives to 0 and the phase to \<open>GAME_OVER\<close> within the
  same call of \<open>checkCollisions\<close>, the last step of the frame, and schedules no reset
  callback.
\<close>

theorem C8_last_life:
  assumes "lives (gameState g) = 1"
    and "phase (gameState g) = DESCENT \<or> phase (gameState g) = ASCENT"
    and "fst (checkLanderMeteorCollision (lander g) (meteors g)) \<noteq> None"
  shows "lives (gameState (checkCollisions D g)) = 0 \<and>
         phase (gameState (checkCollisions D g)) = GAME_OVER \<and>
         timeouts (checkCollisions D g) = timeouts g"
proof -
  have "checkCollisions D g = Game_loseLife g"
    using assms(2,3) by (auto simp add: checkCollisions_def Let_def)
  then show ?thesis using Game_loseLife_last [OF assms(1)] by simp
qed

theorem C8_last_life_witness:
  "lives (gameState last_life_game) = 1 \<and>
   phase (gameState last_life_game) = DESCENT \<and>
   fst (checkLanderMeteorCollision (lander last_life_game) (meteors last_life_game)) \<noteq> None \<and>
   lives (gameState (checkCollisions (\<lambda>i. middle_draws) last_life_game)) = 0 \<and>
   phase (gameState (checkCollisions (\<lambda>i. middle_draws) last_life_game)) = GAME_OVER \<and>
   timeouts (checkCollisions (\<lambda>i. middle_draws) last_life_game) = []"
proof -
  have l: "lives (gameState last_life_game) = 1"
    by (simp add: last_life_game_def new_game_def)
  have p: "phase (gameState last_life_game) = DESCENT"
    by (simp add: last_life_game_def new_game_def)
  have t: "timeouts last_life_game = []"
    by (simp add: last_life_game_def new_game_def)
  have c: "fst (checkLanderMeteorCollision (lander last_life_game) (meteors last_life_game))
             \<noteq> None"
    by (simp add: last_life_game_def new_game_def checkLanderMeteorCollision_def
        collidesWith_iff Meteor_new_def Meteor_createMesh_def randomize_def middle_draws_def
        Lander_defs Config_defs power2_eq_square)
  show ?thesis
    using C8_last_life [of last_life_game "\<lambda>i. middle_draws"] l p t c by simp
qed

section \<open>Properties of the meteor\<close>

lemma Meteor_update_flagship:
  assumes "isFlagship m"
  shows "isFlagship (Meteor_update dt scene m) \<and>
         points (Meteor_update dt scene m) = points m \<and>
         radius (Meteor_update dt scene m) = radius m \<and>
         drawable (Meteor_update dt scene m) = drawable m \<and>
         flashTimer (Meteor_update dt scene m) = flashTimer m \<and>
         \<bar>vel_x (Meteor_update dt scene m)\<bar> = \<bar>vel_x m\<bar>"
  using assms by (simp add: Meteor_update_def Let_def)

lemma Meteor_update_flagship_funpow:
  assumes "isFlagship m"
  shows "isFlagship ((Meteor_update dt scene ^^ n) m) \<and>
         points ((Meteor_update dt scene ^^ n) m) = points m \<and>
         radius ((Meteor_update dt scene ^^ n) m) = radius m \<and>
         drawable ((Meteor_update dt scene ^^ n) m) = drawable m \<and>
         flashTimer ((Meteor_update dt scene ^^ n) m) = flashTimer m \<and>
         \<bar>vel_x ((Meteor_update dt scene ^^ n) m)\<bar> = \<bar>vel_x m\<bar>"
proof (induction n)
  case 0
  show ?case using assms by simp
next
  case (Suc n)
  then show ?case
    using Meteor_update_flagship [of "(Meteor_update dt scene ^^ n) m" dt scene] by simp
qed

lemma Meteor_update_transforms:
  assumes "active m" and "willBecomeFlagship m" and "\<not> isFlagship m"
    and "flashTimer m + 0.05 > FLAGSHIP_FLASH_DURATION"
  shows "isFlagship (Meteor_update dt True m) \<and>
         drawable (Meteor_update dt True m) = FlagshipGroup \<and>
         points (Meteor_update dt True m) = SCORE_FLAGSHIP \<and>
         \<bar>vel_x (Meteor_update dt True m)\<bar> = 2 * \<bar>vel_x m\<bar> \<and>
         radius (Meteor_update dt True m) = 1.2 \<and>
         pos_x (Meteor_update dt True m) = pos_x (Meteor_update dt False m) \<and>
         pos_y (Meteor_update dt True m) = pos_y (Meteor_update dt False m) \<and>
         pos_z (Meteor_update dt True m) = pos_z m"
  using assms by (simp add: Meteor_update_def Let_def transformToFlagship_def abs_mult)

text \<open>
  Claim C7, amended. The update in which the flash timer of an active, eligible,
  untransformed meteor passes \<open>FLAGSHIP_FLASH_DURATION\<close> transforms it in place: the
  drawable is the flagship group at the position the plain movement gives, the points are
  \<open>SCORE_FLAGSHIP\<close>, the horizontal speed is twice what it was, \<open>isFlagship\<close> is true, and
  the radius is 1.2, which is larger than the radius before exactly when that was below
  1.2. Through any later updates the flag, the drawable, the points, the radius and the
  doubled speed stay, so the transform runs once.
\<close>

theorem C7_flagship_transform:
  assumes "active m" and "willBecomeFlagship m" and "\<not> isFlagship m"
    and "flashTimer m + 0.05 > FLAGSHIP_FLASH_DURATION"
  shows "isFlagship (Meteor_update dt True m) \<and>
         drawable (Meteor_update dt True m) = FlagshipGroup \<and>
         points (Meteor_update dt True m) = SCORE_FLAGSHIP \<and>
         \<bar>vel_x (Meteor_update dt True m)\<bar> = 2 * \<bar>vel_x m\<bar> \<and>
         radius (Meteor_update dt True m) = 1.2 \<and>
         (radius m < radius (Meteor_update dt True m) \<longleftrightarrow> radius m < 1.2) \<and>
         pos_x (Meteor_update dt True m) = pos_x (Meteor_update dt False m) \<and>
         pos_y (Meteor_update dt True m) = pos_y (Meteor_update dt False m) \<and>
         pos_z (Meteor_update dt True m) = pos_z m \<and>
         isFlagship ((Meteor_update dt' scene ^^ n) (Meteor_update dt True m)) \<and>
         drawable ((Meteor_update dt' scene ^^ n) (Meteor_update dt True m)) = FlagshipGroup \<and>
         points ((Meteor_update dt' scene ^^ n) (Meteor_update dt True m)) = SCORE_FLAGSHIP \<and>
         \<bar>vel_x ((Meteor_update dt' scene ^^ n) (Meteor_update dt True m))\<bar> = 2 * \<bar>vel_x m\<bar> \<and>
         radius ((Meteor_update dt' scene ^^ n) (Meteor_update dt True m)) = 1.2"
proof -
  note t = Meteor_update_transforms [OF assms, of dt]
  from t have f: "isFlagship (Meteor_update dt True m)" by blast
  note l = Meteor_update_flagship_funpow [OF f, where dt = dt' and scene = scene and n = n]
  from t have r: "radius (Meteor_update dt True m) = 1.2" by blast
  have "radius m < radius (Meteor_update dt True m) \<longleftrightarrow> radius m < 1.2"
    by (simp only: r)
  with t l show ?thesis by (simp only:)
qed

lemma radius_Meteor_new:
  "radius (Meteor_new lvl d) = 0.5 + d_scale d"
  by (simp add: Meteor_new_def randomize_def Meteor_createMesh_def Let_def)

lemma flashing_meteor_60:
  "(Meteor_update 0.016 True ^^ 60) (Meteor_new 1 big_eligible_draws) =
     \<lparr>pos_x = 1.65, pos_y = - 3.5, pos_z = 0, vel_x = 0.0275, vel_y = 0, vel_z = 0,
      active = True, radius = 1.3, mlevel = 1, isFlagship = False, flashTimer = 3,
      willBecomeFlagship = True, points = 50, drawable = RockMesh\<rparr>"
  by (simp add: eval_nat_numeral Meteor_defs big_eligible_draws_def Config_defs Let_def)

lemma funpow_61: "(f ^^ 61) x = f ((f ^^ 60) x)"
proof -
  have "(61::nat) = Suc 60" by simp
  then show ?thesis by (simp only: funpow.simps o_apply)
qed

text \<open>
  Claim C7 as stated fails in the radius: a meteor built with the scale draw 0.8 has the
  radius 1.3; it is eligible, its timer passes the threshold in the 61st update, and the
  flagship it becomes has the radius 1.2.
\<close>

theorem C7_counterexample:
  "active ((Meteor_update 0.016 True ^^ 60) (Meteor_new 1 big_eligible_draws)) \<and>
   willBecomeFlagship ((Meteor_update 0.016 True ^^ 60) (Meteor_new 1 big_eligible_draws)) \<and>
   \<not> isFlagship ((Meteor_update 0.016 True ^^ 60) (Meteor_new 1 big_eligible_draws)) \<and>
   radius ((Meteor_update 0.016 True ^^ 60) (Meteor_new 1 big_eligible_draws)) = 1.3 \<and>
   isFlagship ((Meteor_update 0.016 True ^^ 61) (Meteor_new 1 big_eligible_draws)) \<and>
   radius ((Meteor_update 0.016 True ^^ 61) (Meteor_new 1 big_eligible_draws)) = 1.2 \<and>
   radius (Meteor_new 1 big_eligible_draws) = 1.3"
  by (simp only: funpow_61 flashing_meteor_60 radius_Meteor_new)
    (simp add: big_eligible_draws_def Meteor_update_def transformToFlagship_def Config_defs
      Let_def)

theorem C7_flagship_transform_witness:
  "active ((Meteor_update 0.016 True ^^ 60) (Meteor_new 1 big_eligible_draws)) \<and>
   willBecomeFlagship ((Meteor_update 0.016 True ^^ 60) (Meteor_new 1 big_eligible_draws)) \<and>
   \<not> isFlagship ((Meteor_update 0.016 True ^^ 60) (Meteor_new 1 big_eligible_draws)) \<and>
   flashTimer ((Meteor_update 0.016 True ^^ 60) (Meteor_new 1 big_eligible_draws)) + 0.05
     > FLAGSHIP_FLASH_DURATION \<and>
   vel_x ((Meteor_update 0.016 True ^^ 60) (Meteor_new 1 big_eligible_draws)) = 0.0275 \<and>
   points ((Meteor_update 0.016 True ^^ 60) (Meteor_new 1 big_eligible_draws)) = 50 \<and>
   isFlagship ((Meteor_update 0.016 True ^^ 61) (Meteor_new 1 big_eligible_draws)) \<and>
   points ((Meteor_update 0.016 True ^^ 61) (Meteor_new 1 big_eligible_draws)) = 500 \<and>
   \<bar>vel_x ((Meteor_update 0.016 True ^^ 61) (Meteor_new 1 big_eligible_draws))\<bar> = 0.055 \<and>
   radius ((Meteor_update 0.016 True ^^ 61) (Meteor_new 1 big_eligible_draws)) = 1.2 \<and>
   isFlagship ((Meteor_update 0.016 True ^^ 7)
     ((Meteor_update 0.016 True ^^ 61) (Meteor_new 1 big_eligible_draws))) \<and>
   points ((Meteor_update 0.016 True ^^ 7)
     ((Meteor_update 0.016 True ^^ 61) (Meteor_new 1 big_eligible_draws))) = 500 \<and>
   \<bar>vel_x ((Meteor_update 0.016 True ^^ 7)
     ((Meteor_update 0.016 True ^^ 61) (Meteor_new 1 big_eligible_draws)))\<bar> = 0.055"
proof -
  let ?m = "(Meteor_update 0.016 True ^^ 60) (Meteor_new 1 big_eligible_draws)"
  have h: "active ?m \<and> willBecomeFlagship ?m \<and> \<not> isFlagship ?m \<and>
           flashTimer ?m + 0.05 > FLAGSHIP_FLASH_DURATION \<and> vel_x ?m = 0.0275 \<and>
           points ?m = 50"
    by (simp only: flashing_meteor_60) (simp add: FLAGSHIP_FLASH_DURATION_def)
  have "isFlagship (Meteor_update 0.016 True ?m) \<and>
        points (Meteor_update 0.016 True ?m) = SCORE_FLAGSHIP \<and>
        \<bar>vel_x (Meteor_update 0.016 True ?m)\<bar> = 2 * \<bar>vel_x ?m\<bar> \<and>
        radius (Meteor_update 0.016 True ?m) = 1.2 \<and>
        isFlagship ((Meteor_update 0.016 True ^^ 7) (Meteor_update 0.016 True ?m)) \<and>
        points ((Meteor_update 0.016 True ^^ 7) (Meteor_update 0.016 True ?m))
          = SCORE_FLAGSHIP \<and>
        \<bar>vel_x ((Meteor_update 0.016 True ^^ 7) (Meteor_update 0.016 True ?m))\<bar>
          = 2 * \<bar>vel_x ?m\<bar>"
    using h C7_flagship_transform
      [where m = ?m and dt = "0.016" and dt' = "0.016" and scene = True and n = 7]
    by blast
  with h show ?thesis
    by (simp only: funpow_61) (simp add: SCORE_FLAGSHIP_def)
qed

section \<open>Properties of the astronaut\<close>

lemma Astronaut_update_rank:
  "rank (state a) \<le> rank (state (snd (Astronaut_update dt x a)))"
  by (cases "state a") (simp_all add: Astronaut_update_def Let_def)

lemma Astronaut_update_True:
  assumes "fst (Astronaut_update dt x a)"
  shows "active a \<and> state a = BOARDING \<and>
         state (snd (Astronaut_update dt x a)) = ABOARD \<and>
         \<not> active (snd (Astronaut_update dt x a))"
  using assms by (cases "state a") (auto simp add: Astronaut_update_def Let_def split: if_splits)

lemma Astronaut_update_False:
  assumes "\<not> fst (Astronaut_update dt x a)"
  shows "state (snd (Astronaut_update dt x a)) = ABOARD \<longleftrightarrow> state a = ABOARD"
  using assms by (cases "state a") (auto simp add: Astronaut_update_def Let_def split: if_splits)

lemma Astronaut_update_done:
  "\<not> active a \<or> state a = ABOARD \<Longrightarrow> Astronaut_update dt x a = (False, a)"
  by (auto simp add: Astronaut_update_def)

lemma Astronaut_run_done:
  "\<not> active a \<or> state a = ABOARD \<Longrightarrow>
     Astronaut_run dt xs a = (replicate (length xs) False, a)"
  by (induction xs) (simp_all add: Astronaut_update_done)

lemma Astronaut_run_append:
  "Astronaut_run dt (xs @ ys) a =
     (fst (Astronaut_run dt xs a) @ fst (Astronaut_run dt ys (snd (Astronaut_run dt xs a))),
      snd (Astronaut_run dt ys (snd (Astronaut_run dt xs a))))"
  by (induction xs arbitrary: a) (simp_all add: split_beta Let_def)

lemma Astronaut_run_rank:
  "rank (state a) \<le> rank (state (snd (Astronaut_run dt xs a)))"
proof (induction xs arbitrary: a)
  case Nil
  show ?case by simp
next
  case (Cons x xs)
  have "rank (state a) \<le> rank (state (snd (Astronaut_update dt x a)))"
    by (rule Astronaut_update_rank)
  also have "\<dots> \<le> rank (state (snd (Astronaut_run dt xs (snd (Astronaut_update dt x a)))))"
    by (rule Cons.IH)
  finally show ?case by (simp add: split_beta Let_def)
qed

lemma count_list_replicate_False: "count_list (replicate n False) True = 0"
  by (induction n) simp_all

lemma Astronaut_run_count:
  "count_list (fst (Astronaut_run dt xs a)) True =
     (if state (snd (Astronaut_run dt xs a)) = ABOARD \<and> state a \<noteq> ABOARD then 1 else 0)"
proof (induction xs arbitrary: a)
  case Nil
  show ?case by simp
next
  case (Cons x xs)
  let ?a1 = "snd (Astronaut_update dt x a)"
  show ?case
  proof (cases "fst (Astronaut_update dt x a)")
    case True
    note t = Astronaut_update_True [OF True]
    then have "Astronaut_run dt xs ?a1 = (replicate (length xs) False, ?a1)"
      using Astronaut_run_done by blast
    with True t show ?thesis
      by (simp add: split_beta Let_def count_list_replicate_False)
  next
    case False
    note f = Astronaut_update_False [OF False]
    with False Cons.IH [of ?a1] show ?thesis
      by (simp add: split_beta Let_def)
  qed
qed


text \<open>Approaching a stationary lander ends in Boarding.\<close>

lemma running_reaches_boarding:
  assumes "active a" and "state a = RUNNING" and "speed a = 0.05"
    and "\<bar>x - pos_x a\<bar> < 0.5 + 0.05 * real k"
  shows "\<exists>n. state (snd (Astronaut_run dt (replicate n x) a)) = BOARDING \<and>
             active (snd (Astronaut_run dt (replicate n x) a)) \<and>
             scale (snd (Astronaut_run dt (replicate n x) a)) = scale a"
  using assms
proof (induction k arbitrary: a)
  case 0
  then have "state (snd (Astronaut_update dt x a)) = BOARDING \<and>
             active (snd (Astronaut_update dt x a)) \<and>
             scale (snd (Astronaut_update dt x a)) = scale a"
    by (auto simp add: Astronaut_update_def Let_def sgn_if abs_if)
  then have "state (snd (Astronaut_run dt (replicate 1 x) a)) = BOARDING \<and>
             active (snd (Astronaut_run dt (replicate 1 x) a)) \<and>
             scale (snd (Astronaut_run dt (replicate 1 x) a)) = scale a"
    by (simp add: split_beta Let_def)
  then show ?case by blast
next
  case (Suc k)
  let ?a1 = "snd (Astronaut_update dt x a)"
  show ?case
  proof (cases "state ?a1 = BOARDING")
    case True
    with Suc.prems have "state (snd (Astronaut_run dt (replicate 1 x) a)) = BOARDING \<and>
             active (snd (Astronaut_run dt (replicate 1 x) a)) \<and>
             scale (snd (Astronaut_run dt (replicate 1 x) a)) = scale a"
      by (auto simp add: Astronaut_update_def Let_def split_beta split: if_splits)
    then show ?thesis by blast
  next
    case False
    with Suc.prems have a1: "active ?a1 \<and> state ?a1 = RUNNING \<and> speed ?a1 = 0.05 \<and>
        scale ?a1 = scale a \<and> \<bar>x - pos_x ?a1\<bar> < 0.5 + 0.05 * real k"
      by (auto simp add: Astronaut_update_def Let_def sgn_if abs_if add_divide_distrib
          split: if_splits)
    then obtain n where n: "state (snd (Astronaut_run dt (replicate n x) ?a1)) = BOARDING \<and>
             active (snd (Astronaut_run dt (replicate n x) ?a1)) \<and>
             scale (snd (Astronaut_run dt (replicate n x) ?a1)) = scale ?a1"
      using Suc.IH [of ?a1] by blast
    with a1 have "state (snd (Astronaut_run dt (replicate (Suc n) x) a)) = BOARDING \<and>
             active (snd (Astronaut_run dt (replicate (Suc n) x) a)) \<and>
             scale (snd (Astronaut_run dt (replicate (Suc n) x) a)) = scale a"
      by (simp add: split_beta Let_def)
    then show ?thesis by blast
  qed
qed

text \<open>Boarding ends in Aboard once the scale has shrunk below a tenth.\<close>

lemma boarding_reaches_aboard:
  assumes "active a" and "state a = BOARDING" and "scale a * 0.95 ^ Suc k < 0.1"
  shows "\<exists>n. state (snd (Astronaut_run dt (replicate n x) a)) = ABOARD"
  using assms
proof (induction k arbitrary: a)
  case 0
  then have "state (snd (Astronaut_run dt (replicate 1 x) a)) = ABOARD"
    by (simp add: Astronaut_update_def Let_def split_beta)
  then show ?case by blast
next
  case (Suc k)
  let ?a1 = "snd (Astronaut_update dt x a)"
  show ?case
  proof (cases "state ?a1 = ABOARD")
    case True
    then have "state (snd (Astronaut_run dt (replicate 1 x) a)) = ABOARD"
      by (simp add: split_beta Let_def)
    then show ?thesis by blast
  next
    case False
    with Suc.prems have a1: "active ?a1 \<and> state ?a1 = BOARDING \<and>
        scale ?a1 * 0.95 ^ Suc k < 0.1"
      by (auto simp add: Astronaut_update_def Let_def ac_simps split: if_splits)
    then obtain n where "state (snd (Astronaut_run dt (replicate n x) ?a1)) = ABOARD"
      using Suc.IH [of ?a1] by blast
    then have "state (snd (Astronaut_run dt (replicate (Suc n) x) a)) = ABOARD"
      by (simp add: split_beta Let_def)
    then show ?thesis by blast
  qed
qed

lemma shrink_45: "(1::real) * 0.95 ^ Suc 44 < 0.1"
  by (simp add: eval_nat_numeral)

lemma fresh_astronaut_comes_aboard:
  "\<exists>n. state (snd (Astronaut_run dt (replicate n x) (Astronaut_new p))) = ABOARD"
proof -
  let ?a = "Astronaut_new p"
  obtain k :: nat where k: "\<bar>x - pos_x ?a\<bar> / 0.05 < real k"
    using reals_Archimedean2 by blast
  then have "\<bar>x - pos_x ?a\<bar> < 0.5 + 0.05 * real k"
    by (simp add: field_simps)
  moreover have "active ?a" "state ?a = RUNNING" "speed ?a = 0.05" "scale ?a = 1"
    by (simp_all add: Astronaut_new_def)
  ultimately obtain n where n: "state (snd (Astronaut_run dt (replicate n x) ?a)) = BOARDING \<and>
             active (snd (Astronaut_run dt (replicate n x) ?a)) \<and>
             scale (snd (Astronaut_run dt (replicate n x) ?a)) = 1"
    using running_reaches_boarding [of ?a x k dt] by auto
  let ?b = "snd (Astronaut_run dt (replicate n x) ?a)"
  from n have "scale ?b * 0.95 ^ Suc 44 < 0.1" using shrink_45 by simp
  with n obtain m where "state (snd (Astronaut_run dt (replicate m x) ?b)) = ABOARD"
    using boarding_reaches_aboard [of ?b 44 dt x] by blast
  then have "state (snd (Astronaut_run dt (replicate n x @ replicate m x) ?a)) = ABOARD"
    by (simp add: Astronaut_run_append)
  then have "state (snd (Astronaut_run dt (replicate (n + m) x) ?a)) = ABOARD"
    by (simp add: replicate_add)
  then show ?thesis by blast
qed


text \<open>
  Claim C6. Every call of \<open>update\<close> leaves the astronaut's state where it is or moves it
  forward on the path Approaching, Boarding, Aboard, and so does every sequence of calls.
  In any sequence of calls \<open>update\<close> returns true once if the astronaut reaches Aboard in
  it and never otherwise; the call that returns true takes a boarding astronaut to Aboard
  and makes it inactive, and every later call returns false and changes nothing. An
  astronaut fresh from the constructor does come aboard when the lander stays where it is,
  as it does while landed.
\<close>

theorem C6_astronaut_forward:
  "rank (state a) \<le> rank (state (snd (Astronaut_update dt x a))) \<and>
   rank (state (snd (Astronaut_run dt xs a)))
     \<le> rank (state (snd (Astronaut_run dt (xs @ ys) a))) \<and>
   count_list (fst (Astronaut_run dt xs a)) True =
     (if state (snd (Astronaut_run dt xs a)) = ABOARD \<and> state a \<noteq> ABOARD then 1 else 0) \<and>
   (fst (Astronaut_update dt x a) \<longrightarrow>
      state a = BOARDING \<and>
      state (snd (Astronaut_update dt x a)) = ABOARD \<and>
      \<not> active (snd (Astronaut_update dt x a)) \<and>
      (\<forall>dt' x'. Astronaut_update dt' x' (snd (Astronaut_update dt x a)) =
         (False, snd (Astronaut_update dt x a))) \<and>
      (\<forall>zs. Astronaut_run dt zs (snd (Astronaut_update dt x a)) =
         (replicate (length zs) False, snd (Astronaut_update dt x a)))) \<and>
   (\<exists>n. count_list (fst (Astronaut_run dt (replicate n x) (Astronaut_new p))) True = 1)"
proof -
  have m: "rank (state (snd (Astronaut_run dt xs a)))
     \<le> rank (state (snd (Astronaut_run dt (xs @ ys) a)))"
    using Astronaut_run_rank [of "snd (Astronaut_run dt xs a)" dt ys]
    by (simp add: Astronaut_run_append)
  have t: "fst (Astronaut_update dt x a) \<longrightarrow>
      state a = BOARDING \<and>
      state (snd (Astronaut_update dt x a)) = ABOARD \<and>
      \<not> active (snd (Astronaut_update dt x a)) \<and>
      (\<forall>dt' x'. Astronaut_update dt' x' (snd (Astronaut_update dt x a)) =
         (False, snd (Astronaut_update dt x a))) \<and>
      (\<forall>zs. Astronaut_run dt zs (snd (Astronaut_update dt x a)) =
         (replicate (length zs) False, snd (Astronaut_update dt x a)))"
    using Astronaut_update_True [of dt x a] Astronaut_update_done Astronaut_run_done
    by blast
  obtain n where "state (snd (Astronaut_run dt (replicate n x) (Astronaut_new p))) = ABOARD"
    using fresh_astronaut_comes_aboard by blast
  moreover have "state (Astronaut_new p) \<noteq> ABOARD"
    by (simp add: Astronaut_new_def)
  ultimately have "count_list (fst (Astronaut_run dt (replicate n x) (Astronaut_new p))) True = 1"
    by (simp add: Astronaut_run_count)
  then have e: "\<exists>n. count_list (fst (Astronaut_run dt (replicate n x) (Astronaut_new p))) True = 1"
    by blast
  show ?thesis
    using Astronaut_update_rank [of a dt x] m Astronaut_run_count [of dt xs a] t e
    by blast
qed

lemma walk_55:
  "Astronaut_run 0.016 (replicate 55 0.2) (Astronaut_new 0) =
     (replicate 55 False, (Astronaut_new 0)\<lparr>pos_x := - 0.25, state := BOARDING\<rparr>)"
  by (simp add: eval_nat_numeral Astronaut_update_def Astronaut_new_def Let_def GAME_HEIGHT_def)

lemma board_44:
  "Astronaut_run 0.016 (replicate 44 0.2)
     ((Astronaut_new 0)\<lparr>pos_x := - 0.25, state := BOARDING\<rparr>) =
     (replicate 44 False,
      (Astronaut_new 0)\<lparr>pos_x := - 0.25, pos_y := - 25.3, state := BOARDING,
                         scale := 0.95 ^ 44\<rparr>)"
  by (simp add: eval_nat_numeral Astronaut_update_def Astronaut_new_def Let_def GAME_HEIGHT_def)

lemma rescue_99:
  "Astronaut_run 0.016 (replicate 99 0.2) (Astronaut_new 0) =
     (replicate 99 False,
      (Astronaut_new 0)\<lparr>pos_x := - 0.25, pos_y := - 25.3, state := BOARDING,
                         scale := 0.95 ^ 44\<rparr>)"
proof -
  have "replicate 99 (0.2::real) = replicate 55 0.2 @ replicate 44 0.2"
    by (simp add: replicate_add [symmetric])
  then show ?thesis
    by (simp only: Astronaut_run_append walk_55 board_44 fst_conv snd_conv)
      (simp add: replicate_add [symmetric])
qed

lemma rescue_100:
  "fst (Astronaut_update 0.016 0.2 (snd (Astronaut_run 0.016 (replicate 99 0.2) (Astronaut_new 0)))) \<and>
   state (snd (Astronaut_run 0.016 (replicate 100 0.2) (Astronaut_new 0))) = ABOARD"
proof -
  have u: "fst (Astronaut_update 0.016 0.2
             (snd (Astronaut_run 0.016 (replicate 99 0.2) (Astronaut_new 0))))"
    by (simp only: rescue_99 snd_conv)
      (simp add: Astronaut_update_def Astronaut_new_def Let_def eval_nat_numeral)
  have "replicate (99 + 1) (0.2::real) = replicate 99 0.2 @ replicate 1 0.2"
    by (rule replicate_add)
  then have "replicate 100 (0.2::real) = replicate 99 0.2 @ [0.2]"
    by simp
  then have "snd (Astronaut_run 0.016 (replicate 100 0.2) (Astronaut_new 0)) =
     snd (Astronaut_update 0.016 0.2
            (snd (Astronaut_run 0.016 (replicate 99 0.2) (Astronaut_new 0))))"
    by (simp add: Astronaut_run_append split_beta Let_def)
  with u show ?thesis using Astronaut_update_True by simp
qed

theorem C6_astronaut_forward_witness:
  "state (Astronaut_new 0) = RUNNING \<and>
   state (snd (Astronaut_run 0.016 (replicate 55 0.2) (Astronaut_new 0))) = BOARDING \<and>
   state (snd (Astronaut_run 0.016 (replicate 99 0.2) (Astronaut_new 0))) = BOARDING \<and>
   fst (Astronaut_update 0.016 0.2
          (snd (Astronaut_run 0.016 (replicate 99 0.2) (Astronaut_new 0)))) \<and>
   state (snd (Astronaut_run 0.016 (replicate 100 0.2) (Astronaut_new 0))) = ABOARD \<and>
   \<not> active (snd (Astronaut_update 0.016 0.2
          (snd (Astronaut_run 0.016 (replicate 99 0.2) (Astronaut_new 0))))) \<and>
   count_list (fst (Astronaut_run 0.016 (replicate 100 0.2) (Astronaut_new 0))) True = 1 \<and>
   count_list (fst (Astronaut_run 0.016 (replicate 99 0.2) (Astronaut_new 0))) True = 0"
proof -
  let ?c = "snd (Astronaut_run 0.016 (replicate 99 0.2) (Astronaut_new 0))"
  have s0: "state (Astronaut_new 0) = RUNNING" by (simp add: Astronaut_new_def)
  have s55: "state (snd (Astronaut_run 0.016 (replicate 55 0.2) (Astronaut_new 0))) = BOARDING"
    by (simp only: walk_55 snd_conv) simp
  have s99: "state ?c = BOARDING"
    by (simp only: rescue_99 snd_conv) simp
  have c99: "count_list (fst (Astronaut_run 0.016 (replicate 99 0.2) (Astronaut_new 0))) True = 0"
    by (simp only: rescue_99 fst_conv count_list_replicate_False)
  note r = rescue_100
  have "\<not> active (snd (Astronaut_update 0.016 0.2 ?c))"
    using r C6_astronaut_forward [where a = ?c and dt = "0.016" and x = "0.2"] by blast
  moreover have "count_list (fst (Astronaut_run 0.016 (replicate 100 0.2) (Astronaut_new 0))) True = 1"
    using r s0
      C6_astronaut_forward [where a = "Astronaut_new 0" and dt = "0.016"
        and xs = "replicate 100 0.2"]
    by simp
  ultimately show ?thesis using s0 s55 s99 c99 r by blast
qed

end
